theory Spec2Isabelle
  imports Main
begin

section \<open>Errors and outcomes\<close>

text \<open>
  The exceptions the modelled code can raise, named by their Python class. A pydantic
  validator that raises \<open>AssertionError\<close> makes the construction fail with pydantic's
  \<open>ValidationError\<close>, which collects the failures of all validators that ran; the
  texts carried are the names of the validators that raised.
  \<open>AttributeError\<close> carries the attribute that was read on \<open>None\<close>, \<open>KeyError\<close> the
  missing dictionary key. \<open>UnknownEntity\<close> is the failure of the inventory accessor.
\<close>

datatype error =
    ValidationError "string list"
  | AttributeError string
  | KeyError string
  | IndexError
  | UnknownEntity

text \<open>
  A method that mutates its object and may raise: \<open>Done s\<close> is a normal return leaving
  the object (or the loader) in state \<open>s\<close>; \<open>Raised e s\<close> is the exception \<open>e\<close>
  propagating, with \<open>s\<close> the state the mutations made before the raise have left.
\<close>

datatype 's outcome = Done 's | Raised error 's

fun bind_outcome :: "'s outcome \<Rightarrow> ('s \<Rightarrow> 's outcome) \<Rightarrow> 's outcome" where
  "bind_outcome (Done s) f = f s"
| "bind_outcome (Raised e s) f = Raised e s"

fun is_Done :: "'s outcome \<Rightarrow> bool" where
  "is_Done (Done s) = True"
| "is_Done (Raised e s) = False"

fun final_state :: "'s outcome \<Rightarrow> 's" where
  "final_state (Done s) = s"
| "final_state (Raised e s) = s"

fun raised :: "'s outcome \<Rightarrow> error option" where
  "raised (Done s) = None"
| "raised (Raised e s) = Some e"

section \<open>OSPF interface configuration (L3InterfaceModels.py)\<close>

subsection \<open>KeyOspf\<close>

record KeyOspf =
  key_value :: string

text \<open>\<open>KeyOspf.truncate_value\<close>, the \<open>pre=True\<close> validator of the field \<open>value\<close>.\<close>

definition truncate_value :: "string \<Rightarrow> string" where
  "truncate_value v = (if length v > 8 then take 8 v else v)"

text \<open>
  Python's \<open>str.strip()\<close>: the string without its leading and trailing whitespace. A
  string is the list of its characters, a character being its code point (below 256);
  the whitespace characters among them are tab, line feed, vertical tab, form feed,
  carriage return, the four separators 28 to 31, space, next line (133) and no-break
  space (160).
\<close>

definition py_isspace :: "char \<Rightarrow> bool" where
  "py_isspace c = ((of_char c :: nat) \<in> set [9, 10, 11, 12, 13, 28, 29, 30, 31, 32, 133, 160])"

definition py_strip :: "string \<Rightarrow> string" where
  "py_strip v = rev (dropWhile py_isspace (rev (dropWhile py_isspace v)))"

text \<open>
  Construction of a \<open>KeyOspf\<close> from a string. The pre-validator runs first. Then comes
  the validation of the field's type \<open>constr(max_length=8)\<close>, which pydantic runs in
  this order: whitespace is stripped when the model's \<open>Config\<close> has
  \<open>anystr_strip_whitespace\<close> set, then the length is checked. The \<open>Config\<close> is
  inherited from \<open>KeyBase\<close>, which is imported from \<open>net_models.models\<close>; its setting
  is a parameter here.
\<close>

definition KeyOspf_new :: "bool \<Rightarrow> string \<Rightarrow> error + KeyOspf" where
  "KeyOspf_new anystr_strip_whitespace v =
     (let v1 = truncate_value v;
          v2 = (if anystr_strip_whitespace then py_strip v1 else v1)
      in if length v2 \<le> 8 then Inr \<lparr>key_value = v2\<rparr>
         else Inl (ValidationError [''max_length'']))"

subsection \<open>InterfaceOspfConfig\<close>

record InterfaceOspfAuthentication =
  auth_method :: "string option"
  auth_keychain :: "string option"
  auth_key :: "KeyOspf option"

record InterfaceOspfTimers =
  timer_hello :: "int option"
  timer_dead :: "int option"
  timer_retransmit :: "int option"

record InterfaceOspfConfig =
  process_id :: "int option"
  area :: "int option"
  network_type :: "string option"
  cost :: "int option"
  priority :: "int option"
  authentication :: "InterfaceOspfAuthentication option"
  timers :: "InterfaceOspfTimers option"
  bfd :: "bool option"

text \<open>
  \<open>InterfaceOspfConfig.validate_process_and_area\<close>, the root validator. The values it
  receives are the validated fields; it returns them unchanged or raises.
\<close>

definition validate_process_and_area :: "InterfaceOspfConfig \<Rightarrow> error + InterfaceOspfConfig" where
  "validate_process_and_area values =
     (if process_id values \<noteq> None \<and> area values = None
        then Inl (ValidationError [''validate_process_and_area''])
      else if process_id values = None \<and> area values \<noteq> None
        then Inl (ValidationError [''validate_process_and_area''])
      else Inr values)"

text \<open>Constructing an \<open>InterfaceOspfConfig\<close> from field values runs its root validator.\<close>

definition InterfaceOspfConfig_new :: "InterfaceOspfConfig \<Rightarrow> error + InterfaceOspfConfig" where
  "InterfaceOspfConfig_new values = validate_process_and_area values"


section \<open>IPv4 addressing\<close>

subsection \<open>Python's \<open>ipaddress\<close> values\<close>

text \<open>
  \<open>ipaddress.IPv4Interface\<close> is an address (a Python integer below \<open>2 ^ 32\<close>) with a
  prefix length; \<open>ipaddress.IPv4Network\<close> is a network address, whose host bits are
  zero, with a prefix length. The library masks with bit operations; on integers below
  \<open>2 ^ 32\<close> clearing the low \<open>32 - p\<close> bits is subtracting the remainder modulo
  \<open>2 ^ (32 - p)\<close>, and setting them on a network address is adding \<open>2 ^ (32 - p) - 1\<close>.
\<close>

record IPv4Interface =
  ip :: nat
  if_prefixlen :: nat

record IPv4Network =
  network_address :: nat
  prefixlen :: nat

definition valid_network :: "IPv4Network \<Rightarrow> bool" where
  "valid_network net =
     (prefixlen net \<le> 32 \<and> network_address net < 2 ^ 32
      \<and> network_address net mod 2 ^ (32 - prefixlen net) = 0)"

text \<open>\<open>IPv4Interface.network\<close>: the network the interface address lies in.\<close>

definition interface_network :: "IPv4Interface \<Rightarrow> IPv4Network" where
  "interface_network i =
     \<lparr>network_address = ip i - ip i mod 2 ^ (32 - if_prefixlen i),
      prefixlen = if_prefixlen i\<rparr>"

definition broadcast_address :: "IPv4Network \<Rightarrow> nat" where
  "broadcast_address net = network_address net + 2 ^ (32 - prefixlen net) - 1"

text \<open>
  \<open>x in net\<close> for an interface address \<open>x\<close> (\<open>_BaseNetwork.__contains__\<close>):
  \<open>x._ip & net.netmask._ip == net.network_address._ip\<close>.
\<close>

definition in_network :: "IPv4Interface \<Rightarrow> IPv4Network \<Rightarrow> bool" where
  "in_network x net =
     (ip x - ip x mod 2 ^ (32 - prefixlen net) = network_address net)"

text \<open>
  \<open>IPv4Network.hosts()\<close> as a list: the addresses strictly between the network and the
  broadcast address; both addresses of a /31; the single address of a /32.
\<close>

definition network_hosts :: "IPv4Network \<Rightarrow> nat list" where
  "network_hosts net =
     (if prefixlen net = 31 then [network_address net ..< broadcast_address net + 1]
      else if prefixlen net = 32 then [network_address net]
      else [network_address net + 1 ..< broadcast_address net])"

subsection \<open>Interface address models (L3InterfaceModels.py)\<close>

record InterfaceIPv4Address =
  address :: IPv4Interface
  secondary :: "bool option"

record InterfaceDhcpClientConfig =
  dhcp_enabled :: "bool option"

record InterfaceIPv4Container =
  addresses :: "InterfaceIPv4Address list option"
  unnumbered :: "string option"
  dhcp_client :: "InterfaceDhcpClientConfig option"

text \<open>
  \<open>InterfaceIPv4Address(address=a)\<close>. The field validator \<open>ipv4_is_assignable\<close> is
  imported from \<open>net_models.validators\<close>; it is a parameter here.
\<close>

definition InterfaceIPv4Address_new ::
    "(IPv4Interface \<Rightarrow> bool) \<Rightarrow> IPv4Interface \<Rightarrow> error + InterfaceIPv4Address" where
  "InterfaceIPv4Address_new ipv4_is_assignable a =
     (if ipv4_is_assignable a then Inr \<lparr>address = a, secondary = None\<rparr>
      else Inl (ValidationError [''ipv4_is_assignable'']))"

text \<open>
  The inner loop of \<open>validate_non_overlapping\<close> for one \<open>address\<close>: a copy of the list
  with the first element equal to \<open>address\<close> removed, searched for an element whose
  network contains \<open>address\<close>.
\<close>

definition overlaps_other :: "InterfaceIPv4Address list \<Rightarrow> InterfaceIPv4Address \<Rightarrow> bool" where
  "overlaps_other addrs a =
     list_ex (\<lambda>other. in_network (address a) (interface_network (address other)))
       (remove1 a addrs)"

definition validate_non_overlapping :: "InterfaceIPv4Container \<Rightarrow> error + InterfaceIPv4Container" where
  "validate_non_overlapping values =
     (case addresses values of
        None \<Rightarrow> Inr values
      | Some addrs \<Rightarrow>
          if list_ex (overlaps_other addrs) addrs
          then Inl (ValidationError [''validate_non_overlapping''])
          else Inr values)"

definition validate_single_primary :: "InterfaceIPv4Container \<Rightarrow> error + InterfaceIPv4Container" where
  "validate_single_primary values =
     (case addresses values of
        None \<Rightarrow> Inr values
      | Some addrs \<Rightarrow>
          if length addrs = 1 then Inr values
          else if length (filter (\<lambda>x. secondary x = Some False \<or> secondary x = None) addrs) > 1
          then Inl (ValidationError [''validate_single_primary''])
          else Inr values)"

text \<open>
  Validation of a container: pydantic runs the root validators in the order of their
  definition, each on the same values, and raises one \<open>ValidationError\<close> with every
  failure when at least one of them raised.
\<close>

definition failures :: "error + 'a \<Rightarrow> string list" where
  "failures r = (case r of Inl (ValidationError names) \<Rightarrow> names | _ \<Rightarrow> [])"

definition InterfaceIPv4Container_validate ::
    "InterfaceIPv4Container \<Rightarrow> error + InterfaceIPv4Container" where
  "InterfaceIPv4Container_validate values =
     (let errs = failures (validate_non_overlapping values)
               @ failures (validate_single_primary values)
      in if errs = [] then Inr values else Inl (ValidationError errs))"

text \<open>
  Modelled from the spec: \<open>clone\<close>, a method of the base model class, which is not
  among the sources. The specification has it return an independent value copy that is
  validated again (4.3: the address is appended, "then re-validates the container's
  invariants"). On values a copy is the value itself, so \<open>clone\<close> of a container is its
  validation.
\<close>

definition InterfaceIPv4Container_clone ::
    "InterfaceIPv4Container \<Rightarrow> error + InterfaceIPv4Container" where
  "InterfaceIPv4Container_clone c = InterfaceIPv4Container_validate c"

subsection \<open>InterfaceRouteportModel\<close>

record InterfaceBfdConfig =
  bfd_template :: string

text \<open>
  The routed port. Its \<open>ospf\<close> field holds a reference to an OSPF configuration object
  in the loader's object store (see below), so that sharing of one configuration object
  between ports can be expressed. The fields \<open>ipv6\<close>, \<open>ip_mtu\<close> and \<open>isis\<close>, which no
  modelled function reads or writes, are left out.
\<close>

record InterfaceRouteportModel =
  ipv4 :: "InterfaceIPv4Container option"
  vrf :: "string option"
  ospf :: "nat option"
  port_bfd :: "InterfaceBfdConfig option"

definition InterfaceIPv4Container_empty :: InterfaceIPv4Container where
  "InterfaceIPv4Container_empty = \<lparr>addresses = None, unnumbered = None, dhcp_client = None\<rparr>"

definition InterfaceRouteportModel_empty :: InterfaceRouteportModel where
  "InterfaceRouteportModel_empty = \<lparr>ipv4 = None, vrf = None, ospf = None, port_bfd = None\<rparr>"

text \<open>The argument of \<open>add_ipv4_address\<close>: a model already built, or a bare interface address.\<close>

datatype address_arg = Model InterfaceIPv4Address | Plain IPv4Interface

text \<open>
  \<open>InterfaceRouteportModel.add_ipv4_address\<close>. The statements before \<open>append\<close> create the
  container and the list; \<open>append\<close> changes the list of the port's container in place;
  only then \<open>clone\<close> validates, and only if it returns is the port's container replaced.
\<close>

definition add_ipv4_address ::
    "(IPv4Interface \<Rightarrow> bool) \<Rightarrow> address_arg \<Rightarrow> InterfaceRouteportModel
      \<Rightarrow> InterfaceRouteportModel outcome" where
  "add_ipv4_address ipv4_is_assignable arg self =
     (let c0 = (case ipv4 self of None \<Rightarrow> InterfaceIPv4Container_empty | Some c \<Rightarrow> c);
          c1 = (case addresses c0 of None \<Rightarrow> c0\<lparr>addresses := Some []\<rparr> | Some _ \<Rightarrow> c0);
          addrs = (case addresses c1 of None \<Rightarrow> [] | Some l \<Rightarrow> l)
      in case (case arg of Model m \<Rightarrow> Inr m
               | Plain a \<Rightarrow> InterfaceIPv4Address_new ipv4_is_assignable a) of
           Inl e \<Rightarrow> Raised e (self\<lparr>ipv4 := Some c1\<rparr>)
         | Inr m \<Rightarrow>
             let c2 = c1\<lparr>addresses := Some (addrs @ [m])\<rparr>
             in (case InterfaceIPv4Container_clone c2 of
                   Inl e \<Rightarrow> Raised e (self\<lparr>ipv4 := Some c2\<rparr>)
                 | Inr c3 \<Rightarrow> Done (self\<lparr>ipv4 := Some c3\<rparr>)))"

text \<open>The address list a port holds (empty when it has no container or no list).\<close>

definition port_addresses :: "InterfaceRouteportModel \<Rightarrow> InterfaceIPv4Address list" where
  "port_addresses p =
     (case ipv4 p of None \<Rightarrow> []
      | Some c \<Rightarrow> (case addresses c of None \<Rightarrow> [] | Some l \<Rightarrow> l))"

section \<open>The loader (ExcelLoader.py)\<close>

subsection \<open>Inventory and loader state\<close>

record InterfaceNeighbor =
  nb_host :: string
  nb_interface :: string

record InterfaceCdpConfig =
  cdp_enabled :: "bool option"

record InterfaceDiscoveryProtocols =
  cdp :: "InterfaceCdpConfig option"

record InterfaceLagMemberConfig =
  lag_group :: nat
  lag_mode :: string

record InterfaceModel =
  neighbor :: "InterfaceNeighbor option"
  discovery_protocols :: "InterfaceDiscoveryProtocols option"
  lag_member :: "InterfaceLagMemberConfig option"
  l3_port :: "InterfaceRouteportModel option"

record BgpPeerGroup =
  pg_name :: string

record BgpNeighbor =
  nbr_address :: string
  peer_group :: "string option"

record RoutingBgpProcess =
  asn :: int
  neighbors :: "BgpNeighbor list option"
  peer_groups :: "BgpPeerGroup list option"

record RoutingConfig =
  bgp :: "RoutingBgpProcess option"

record HostConfig =
  routing :: "RoutingConfig option"

record Host =
  config :: "HostConfig option"

text \<open>
  Modelled from the spec: the inventory and its accessors \<open>get_host\<close> and
  \<open>get_interface\<close>, methods of \<open>BaseLoader\<close>, which is not among the sources. In the
  specification a host's identity is its name and an interface's identity is the pair of
  host name and interface name; the accessors look an object up by its identity and fail
  with \<open>UnknownEntity\<close> when there is none; they never create one. The inventory is
  therefore a store of host objects keyed by name and a store of interface objects keyed
  by the pair. An interface object is denoted by its key, every read and write of one of
  its attributes goes to the store, and the attribute \<open>name\<close> of a host or an interface
  is the name it was looked up by.

  The loader also owns the template registry \<open>templates\<close> (kind to name to template)
  and, in this model, the store of OSPF configuration objects: a template and the \<open>ospf\<close>
  field of a routed port hold a reference into \<open>ospf_store\<close>, and \<open>next_ref\<close> is the
  first reference not yet given to an object.
\<close>

type_synonym ifkey = "string \<times> string"

record loader =
  inv_hosts :: "string \<rightharpoonup> Host"
  inv_interfaces :: "ifkey \<rightharpoonup> InterfaceModel"
  templates :: "string \<rightharpoonup> (string \<rightharpoonup> nat)"
  ospf_store :: "nat \<Rightarrow> InterfaceOspfConfig"
  next_ref :: nat

definition get_host :: "loader \<Rightarrow> string \<Rightarrow> error + Host" where
  "get_host st host_name =
     (case inv_hosts st host_name of None \<Rightarrow> Inl UnknownEntity | Some h \<Rightarrow> Inr h)"

definition get_interface :: "loader \<Rightarrow> string \<Rightarrow> string \<Rightarrow> error + ifkey" where
  "get_interface st host_name interface_name =
     (case inv_interfaces st (host_name, interface_name) of
        None \<Rightarrow> Inl UnknownEntity
      | Some _ \<Rightarrow> Inr (host_name, interface_name))"

text \<open>Writing attributes of the interface object \<open>k\<close>, and of its routed port.\<close>

definition update_interface :: "ifkey \<Rightarrow> (InterfaceModel \<Rightarrow> InterfaceModel) \<Rightarrow> loader \<Rightarrow> loader" where
  "update_interface k f st =
     st\<lparr>inv_interfaces :=
          (\<lambda>k'. if k' = k then map_option f (inv_interfaces st k') else inv_interfaces st k')\<rparr>"

definition update_port ::
    "ifkey \<Rightarrow> (InterfaceRouteportModel \<Rightarrow> InterfaceRouteportModel) \<Rightarrow> loader \<Rightarrow> loader" where
  "update_port k f st = update_interface k (\<lambda>i. i\<lparr>l3_port := map_option f (l3_port i)\<rparr>) st"

text \<open>
  Reading \<open>interface.l3_port\<close> in order to use its attribute \<open>attr\<close>: on \<open>None\<close> the
  attribute access raises.
\<close>

definition get_port :: "loader \<Rightarrow> ifkey \<Rightarrow> string \<Rightarrow> error + InterfaceRouteportModel" where
  "get_port st k attr =
     (case inv_interfaces st k of
        None \<Rightarrow> Inl UnknownEntity
      | Some i \<Rightarrow> (case l3_port i of None \<Rightarrow> Inl (AttributeError attr) | Some p \<Rightarrow> Inr p))"

text \<open>What can be observed of an interface in a loader state.\<close>

definition neighbor_of :: "loader \<Rightarrow> ifkey \<Rightarrow> InterfaceNeighbor option" where
  "neighbor_of st k = (case inv_interfaces st k of None \<Rightarrow> None | Some i \<Rightarrow> neighbor i)"

definition discovery_of :: "loader \<Rightarrow> ifkey \<Rightarrow> InterfaceDiscoveryProtocols option" where
  "discovery_of st k =
     (case inv_interfaces st k of None \<Rightarrow> None | Some i \<Rightarrow> discovery_protocols i)"

definition port_of :: "loader \<Rightarrow> ifkey \<Rightarrow> InterfaceRouteportModel option" where
  "port_of st k = (case inv_interfaces st k of None \<Rightarrow> None | Some i \<Rightarrow> l3_port i)"

definition ipv4_of :: "loader \<Rightarrow> ifkey \<Rightarrow> InterfaceIPv4Container option" where
  "ipv4_of st k = (case port_of st k of None \<Rightarrow> None | Some p \<Rightarrow> ipv4 p)"

definition addresses_of :: "loader \<Rightarrow> ifkey \<Rightarrow> InterfaceIPv4Address list" where
  "addresses_of st k = (case port_of st k of None \<Rightarrow> [] | Some p \<Rightarrow> port_addresses p)"

definition ospf_ref_of :: "loader \<Rightarrow> ifkey \<Rightarrow> nat option" where
  "ospf_ref_of st k = (case port_of st k of None \<Rightarrow> None | Some p \<Rightarrow> ospf p)"

definition ospf_of :: "loader \<Rightarrow> ifkey \<Rightarrow> InterfaceOspfConfig option" where
  "ospf_of st k = map_option (ospf_store st) (ospf_ref_of st k)"

definition template_of :: "loader \<Rightarrow> string \<Rightarrow> InterfaceOspfConfig option" where
  "template_of st name =
     (case templates st ''ospf'' of
        None \<Rightarrow> None
      | Some registry \<Rightarrow> map_option (ospf_store st) (registry name))"

subsection \<open>Link rows\<close>

text \<open>
  The link models \<open>PhysicalLink\<close> and \<open>L3Link\<close> are imported from
  \<open>net_models.inventory\<close>. A row is given with its cells already of the types of the
  model's fields, together with the raw cells that the loader reads from the row itself
  (\<open>row_cdp_enabled\<close>, \<open>row_ospf_template\<close>, \<open>row_bfd_template\<close>). Only the fields the
  loader uses are kept. A row of \<open>physical_links\<close> is taken after it has been decoded
  into its model. For a row of \<open>l3_links\<close> the decoding is the first statement of the
  loop body below: the validation of the \<open>L3Link\<close> model accepts the fields or raises.
\<close>

record Link =
  a_host :: string
  a_interface :: string
  z_host :: string
  z_interface :: string

datatype cell = CellBool bool | CellInt int | CellStr string

text \<open>
  \<open>row_cdp_enabled\<close>: \<open>None\<close> when the sheet has no column \<open>cdp_enabled\<close>,
  \<open>Some None\<close> for an empty cell, \<open>Some (Some v)\<close> for a cell holding \<open>v\<close>.
\<close>

record PhysicalLink = Link +
  a_lag_group :: "nat option"
  a_lag_mode :: "string option"
  z_lag_group :: "nat option"
  z_lag_mode :: "string option"
  row_cdp_enabled :: "cell option option"

record L3Link = Link +
  a_vrf :: "string option"
  z_vrf :: "string option"
  a_ipv4_address :: "IPv4Interface option"
  z_ipv4_address :: "IPv4Interface option"
  ipv4_network :: "IPv4Network option"

record L3LinkRow = L3Link +
  row_ospf_template :: "string option"
  row_bfd_template :: "string option"

subsection \<open>\<open>load_physical_links\<close>: the body of the loop, for one row\<close>

definition set_neighbor :: "ifkey \<Rightarrow> string \<Rightarrow> string \<Rightarrow> loader \<Rightarrow> loader" where
  "set_neighbor k h i st =
     update_interface k (\<lambda>m. m\<lparr>neighbor := Some \<lparr>nb_host = h, nb_interface = i\<rparr>\<rparr>) st"

text \<open>
  Modelled from the spec: \<open>clone\<close> of the base model class (not among the sources), an
  independent value copy; on values, the value itself.
\<close>

definition InterfaceCdpConfig_clone :: "InterfaceCdpConfig \<Rightarrow> InterfaceCdpConfig" where
  "InterfaceCdpConfig_clone c = c"

text \<open>
  The CDP section for one of the two interfaces: the body of
  \<open>for interface in [a_interface, z_interface]\<close>. \<open>cdp_config\<close> is \<open>None\<close> when the cell
  is neither \<open>True\<close> nor \<open>False\<close>, and then \<open>cdp_config.clone()\<close> raises.
\<close>

definition cdp_apply :: "InterfaceCdpConfig option \<Rightarrow> ifkey \<Rightarrow> loader \<Rightarrow> loader outcome" where
  "cdp_apply cdp_config k st =
     (case inv_interfaces st k of
        None \<Rightarrow> Raised UnknownEntity st
      | Some i \<Rightarrow>
          if discovery_protocols i = None then
            (case cdp_config of
               None \<Rightarrow> Raised (AttributeError ''clone'') st
             | Some c \<Rightarrow>
                 Done (update_interface k
                   (\<lambda>m. m\<lparr>discovery_protocols := Some \<lparr>cdp = Some (InterfaceCdpConfig_clone c)\<rparr>\<rparr>) st))
          else Done st)"

definition cdp_section :: "cell option option \<Rightarrow> ifkey \<Rightarrow> ifkey \<Rightarrow> loader \<Rightarrow> loader outcome" where
  "cdp_section c a z st =
     (case c of
        None \<Rightarrow> Done st
      | Some None \<Rightarrow> Done st
      | Some (Some v) \<Rightarrow>
          let cdp_config =
                (if v = CellBool True then Some \<lparr>cdp_enabled = Some True\<rparr>
                 else if v = CellBool False then Some \<lparr>cdp_enabled = Some False\<rparr>
                 else None)
          in bind_outcome (cdp_apply cdp_config a st) (cdp_apply cdp_config z))"

text \<open>The decimal digits of a number, as an f-string prints it.\<close>

fun decimal :: "nat \<Rightarrow> string" where
  "decimal n =
     (if n < 10 then [''0123456789'' ! n]
      else decimal (n div 10) @ [''0123456789'' ! (n mod 10)])"

declare decimal.simps [simp del]

definition port_channel_name :: "nat \<Rightarrow> string" where
  "port_channel_name g = ''Port-channel'' @ decimal g"

text \<open>
  The LAG section for one side: the Port-channel interface is looked up and the member
  interface gets its \<open>lag_member\<close>.
\<close>

definition lag_side ::
    "string \<Rightarrow> string \<Rightarrow> nat option \<Rightarrow> string option \<Rightarrow> ifkey \<Rightarrow> loader \<Rightarrow> loader outcome" where
  "lag_side default_lag_mode host_name lag_grp mode member st =
     (case lag_grp of
        None \<Rightarrow> Done st
      | Some g \<Rightarrow>
          (case get_interface st host_name (port_channel_name g) of
             Inl e \<Rightarrow> Raised e st
           | Inr _ \<Rightarrow>
               Done (update_interface member
                 (\<lambda>m. m\<lparr>lag_member :=
                     Some \<lparr>lag_group = g,
                           lag_mode = (case mode of None \<Rightarrow> default_lag_mode | Some x \<Rightarrow> x)\<rparr>\<rparr>) st)))"

definition lag_section :: "string \<Rightarrow> PhysicalLink \<Rightarrow> ifkey \<Rightarrow> ifkey \<Rightarrow> loader \<Rightarrow> loader outcome" where
  "lag_section default_lag_mode link a z st =
     bind_outcome (lag_side default_lag_mode (a_host link) (a_lag_group link) (a_lag_mode link) a st)
       (\<lambda>st1. bind_outcome
          (lag_side default_lag_mode (z_host link) (z_lag_group link) (z_lag_mode link) z st1)
          (\<lambda>st2. case (a_lag_group link, z_lag_group link) of
                    (Some ga, Some gz) \<Rightarrow>
                      Done (set_neighbor (z_host link, port_channel_name gz)
                              (a_host link) (port_channel_name ga)
                             (set_neighbor (a_host link, port_channel_name ga)
                                (z_host link) (port_channel_name gz) st2))
                  | _ \<Rightarrow> Done st2))"

definition load_physical_link :: "string \<Rightarrow> PhysicalLink \<Rightarrow> loader \<Rightarrow> loader outcome" where
  "load_physical_link default_lag_mode link st =
     (case get_host st (a_host link) of
        Inl e \<Rightarrow> Raised e st
      | Inr _ \<Rightarrow>
     (case get_interface st (a_host link) (a_interface link) of
        Inl e \<Rightarrow> Raised e st
      | Inr a \<Rightarrow>
     (case get_host st (z_host link) of
        Inl e \<Rightarrow> Raised e st
      | Inr _ \<Rightarrow>
     (case get_interface st (z_host link) (z_interface link) of
        Inl e \<Rightarrow> Raised e st
      | Inr z \<Rightarrow>
          let st1 = set_neighbor a (z_host link) (snd z) st;
              st2 = set_neighbor z (a_host link) (snd a) st1
          in bind_outcome (cdp_section (row_cdp_enabled link) a z st2)
               (lag_section default_lag_mode link a z)))))"

subsection \<open>\<open>load_ospf_templates\<close>\<close>

text \<open>
  Before its loop \<open>load_ospf_templates\<close> creates the registry of kind \<open>ospf\<close> when there
  is none. For one row, \<open>row_to_model\<close> constructs an \<open>InterfaceOspfConfig\<close> from the
  row's fields, a new object, and the registry entry of the row's name is set to it.
\<close>

definition ensure_ospf_registry :: "loader \<Rightarrow> loader" where
  "ensure_ospf_registry st =
     (if templates st ''ospf'' = None
      then st\<lparr>templates := (templates st)(''ospf'' \<mapsto> Map.empty)\<rparr> else st)"

definition load_ospf_template :: "string \<Rightarrow> InterfaceOspfConfig \<Rightarrow> loader \<Rightarrow> loader outcome" where
  "load_ospf_template template_name values st =
     (case InterfaceOspfConfig_new values of
        Inl e \<Rightarrow> Raised e st
      | Inr c \<Rightarrow>
          (case templates st ''ospf'' of
             None \<Rightarrow> Raised (KeyError ''ospf'') st
           | Some registry \<Rightarrow>
               Done (st\<lparr>ospf_store := (ospf_store st)(next_ref st := c),
                        next_ref := Suc (next_ref st),
                        templates := (templates st)(''ospf'' \<mapsto>
                                        registry(template_name \<mapsto> next_ref st))\<rparr>)))"

subsection \<open>\<open>load_l3_links\<close>: the body of the loop, for one row\<close>

text \<open>
  The validators and constrained types that the models import from
  \<open>net_models.validators\<close> and \<open>net_models.fields\<close>, and the validation of the
  \<open>L3Link\<close> model, imported from \<open>net_models.inventory\<close>: parameters of the loader.
\<close>

record validators =
  ipv4_is_assignable :: "IPv4Interface \<Rightarrow> bool"
  GENERIC_OBJECT_NAME :: "string \<Rightarrow> bool"
  L3Link_accepts :: "L3Link \<Rightarrow> bool"

text \<open>
  \<open>row_to_model(row, L3Link)\<close>: the fields of the row that the model knows are passed
  to the model, whose validation raises or accepts them. The result is kept together
  with the two raw cells of the row, since the loop body reads both \<open>link\<close> and \<open>row\<close>.
\<close>

definition row_to_model_L3Link :: "validators \<Rightarrow> L3LinkRow \<Rightarrow> error + L3LinkRow" where
  "row_to_model_L3Link vs row =
     (if L3Link_accepts vs (L3Link.truncate row) then Inr row
      else Inl (ValidationError [''L3Link'']))"

definition get_hosts_from_link :: "loader \<Rightarrow> 'a Link_scheme \<Rightarrow> error + (string \<times> string)" where
  "get_hosts_from_link st link =
     (case get_host st (a_host link) of
        Inl e \<Rightarrow> Inl e
      | Inr _ \<Rightarrow>
          (case get_host st (z_host link) of
             Inl e \<Rightarrow> Inl e
           | Inr _ \<Rightarrow> Inr (a_host link, z_host link)))"

definition get_interfaces_from_link :: "loader \<Rightarrow> 'a Link_scheme \<Rightarrow> error + (ifkey \<times> ifkey)" where
  "get_interfaces_from_link st link =
     (case get_interface st (a_host link) (a_interface link) of
        Inl e \<Rightarrow> Inl e
      | Inr a \<Rightarrow>
          (case get_interface st (z_host link) (z_interface link) of
             Inl e \<Rightarrow> Inl e
           | Inr z \<Rightarrow> Inr (a, z)))"

definition ensure_l3_port :: "ifkey \<Rightarrow> loader \<Rightarrow> loader" where
  "ensure_l3_port k st =
     update_interface k
       (\<lambda>m. if l3_port m = None then m\<lparr>l3_port := Some InterfaceRouteportModel_empty\<rparr> else m) st"

text \<open>\<open>if vrf not in GLOBAL_VRFS: interface.l3_port.vrf = vrf\<close>\<close>

definition set_vrf :: "string option \<Rightarrow> ifkey \<Rightarrow> loader \<Rightarrow> loader outcome" where
  "set_vrf v k st =
     (if v \<noteq> None \<and> v \<noteq> Some ''global'' then
        (case get_port st k ''vrf'' of
           Inl e \<Rightarrow> Raised e st
         | Inr _ \<Rightarrow> Done (update_port k (\<lambda>p. p\<lparr>vrf := v\<rparr>) st))
      else Done st)"

text \<open>\<open>if interface.l3_port.ipv4 is None: interface.l3_port.ipv4 = InterfaceIPv4Container()\<close>\<close>

definition ensure_ipv4 :: "ifkey \<Rightarrow> loader \<Rightarrow> loader outcome" where
  "ensure_ipv4 k st =
     (case get_port st k ''ipv4'' of
        Inl e \<Rightarrow> Raised e st
      | Inr p \<Rightarrow>
          if ipv4 p = None
          then Done (update_port k (\<lambda>p. p\<lparr>ipv4 := Some InterfaceIPv4Container_empty\<rparr>) st)
          else Done st)"

text \<open>\<open>interface.l3_port.add_ipv4_address(a)\<close> on the port of the interface \<open>k\<close>.\<close>

definition port_add_ipv4_address ::
    "validators \<Rightarrow> IPv4Interface \<Rightarrow> ifkey \<Rightarrow> loader \<Rightarrow> loader outcome" where
  "port_add_ipv4_address vs a k st =
     (case get_port st k ''add_ipv4_address'' of
        Inl e \<Rightarrow> Raised e st
      | Inr p \<Rightarrow>
          (case add_ipv4_address (ipv4_is_assignable vs) (Plain a) p of
             Done p' \<Rightarrow> Done (update_port k (\<lambda>_. p') st)
           | Raised e p' \<Rightarrow> Raised e (update_port k (\<lambda>_. p') st)))"

text \<open>
  The two addressing statements of the loop body: "Create IPv4 Container if necessary"
  and "Assign Given addresses". Objects of \<open>ipaddress\<close> are always true, so
  \<open>all([a, z])\<close> holds when both are present. \<open>usable_ips[0]\<close> raises on the empty
  list, and \<open>usable_ips[-1]\<close> is the last element.
\<close>

definition l3_addressing :: "validators \<Rightarrow> L3LinkRow \<Rightarrow> ifkey \<Rightarrow> ifkey \<Rightarrow> loader \<Rightarrow> loader outcome" where
  "l3_addressing vs link a z st =
     bind_outcome
       (if (a_ipv4_address link \<noteq> None \<and> z_ipv4_address link \<noteq> None) \<or> ipv4_network link \<noteq> None
        then bind_outcome (ensure_ipv4 a st) (ensure_ipv4 z)
        else Done st)
       (\<lambda>st1.
          case (a_ipv4_address link, z_ipv4_address link) of
            (Some a_address, Some z_address) \<Rightarrow>
              bind_outcome (port_add_ipv4_address vs a_address a st1)
                (port_add_ipv4_address vs z_address z)
          | _ \<Rightarrow>
              (case ipv4_network link of
                 None \<Rightarrow> Done st1
               | Some net \<Rightarrow>
                   let usable_ips = network_hosts net
                   in (case usable_ips of
                         [] \<Rightarrow> Raised IndexError st1
                       | first_ip # _ \<Rightarrow>
                           bind_outcome
                             (port_add_ipv4_address vs
                                \<lparr>ip = first_ip, if_prefixlen = prefixlen net\<rparr> a st1)
                             (port_add_ipv4_address vs
                                \<lparr>ip = last usable_ips, if_prefixlen = prefixlen net\<rparr> z))))"

text \<open>
  Modelled from the spec: \<open>clone\<close> of the base model class (not among the sources), on
  an OSPF configuration object: an independent copy, validated again. The copy is a new
  object of the store holding the value of the object \<open>r\<close>.
\<close>

definition InterfaceOspfConfig_clone :: "nat \<Rightarrow> loader \<Rightarrow> error + (nat \<times> loader)" where
  "InterfaceOspfConfig_clone r st =
     (case InterfaceOspfConfig_new (ospf_store st r) of
        Inl e \<Rightarrow> Inl e
      | Inr c \<Rightarrow>
          Inr (next_ref st,
               st\<lparr>ospf_store := (ospf_store st)(next_ref st := c),
                  next_ref := Suc (next_ref st)\<rparr>))"

text \<open>\<open>interface.l3_port.ospf = ospf_template.clone()\<close>\<close>

definition apply_ospf_template :: "nat \<Rightarrow> ifkey \<Rightarrow> loader \<Rightarrow> loader outcome" where
  "apply_ospf_template r k st =
     (case InterfaceOspfConfig_clone r st of
        Inl e \<Rightarrow> Raised e st
      | Inr (r', st') \<Rightarrow>
          (case get_port st' k ''ospf'' of
             Inl e \<Rightarrow> Raised e st'
           | Inr _ \<Rightarrow> Done (update_port k (\<lambda>p. p\<lparr>ospf := Some r'\<rparr>) st')))"

text \<open>
  \<open>self.templates['ospf']\<close> raises when the registry has not been created;
  \<open>.get(name)\<close> is \<open>None\<close> for a name that is not registered, and \<open>.clone()\<close> on it
  raises.
\<close>

definition l3_ospf :: "L3LinkRow \<Rightarrow> ifkey \<Rightarrow> ifkey \<Rightarrow> loader \<Rightarrow> loader outcome" where
  "l3_ospf link a z st =
     (case row_ospf_template link of
        None \<Rightarrow> Done st
      | Some name \<Rightarrow>
          (case templates st ''ospf'' of
             None \<Rightarrow> Raised (KeyError ''ospf'') st
           | Some registry \<Rightarrow>
               (case registry name of
                  None \<Rightarrow> Raised (AttributeError ''clone'') st
                | Some r \<Rightarrow>
                    bind_outcome (apply_ospf_template r a st) (apply_ospf_template r z))))"

definition InterfaceBfdConfig_new :: "validators \<Rightarrow> string \<Rightarrow> error + InterfaceBfdConfig" where
  "InterfaceBfdConfig_new vs name =
     (if GENERIC_OBJECT_NAME vs name then Inr \<lparr>bfd_template = name\<rparr>
      else Inl (ValidationError [''template'']))"

definition set_bfd :: "validators \<Rightarrow> string \<Rightarrow> ifkey \<Rightarrow> loader \<Rightarrow> loader outcome" where
  "set_bfd vs name k st =
     (case InterfaceBfdConfig_new vs name of
        Inl e \<Rightarrow> Raised e st
      | Inr c \<Rightarrow>
          (case get_port st k ''bfd'' of
             Inl e \<Rightarrow> Raised e st
           | Inr _ \<Rightarrow> Done (update_port k (\<lambda>p. p\<lparr>port_bfd := Some c\<rparr>) st)))"

definition l3_bfd :: "validators \<Rightarrow> L3LinkRow \<Rightarrow> ifkey \<Rightarrow> ifkey \<Rightarrow> loader \<Rightarrow> loader outcome" where
  "l3_bfd vs link a z st =
     (case row_bfd_template link of
        None \<Rightarrow> Done st
      | Some name \<Rightarrow>
          (case templates st ''ospf'' of
             None \<Rightarrow> Raised (KeyError ''ospf'') st
           | Some _ \<Rightarrow> bind_outcome (set_bfd vs name a st) (set_bfd vs name z)))"

definition load_l3_link :: "validators \<Rightarrow> L3LinkRow \<Rightarrow> loader \<Rightarrow> loader outcome" where
  "load_l3_link vs row st =
     (case row_to_model_L3Link vs row of
        Inl e \<Rightarrow> Raised e st
      | Inr link \<Rightarrow>
     (case get_hosts_from_link st link of
        Inl e \<Rightarrow> Raised e st
      | Inr (a_host_name, z_host_name) \<Rightarrow>
     (case get_interfaces_from_link st link of
        Inl e \<Rightarrow> Raised e st
      | Inr (a, z) \<Rightarrow>
          let st1 = set_neighbor a z_host_name (snd z) st;
              st2 = set_neighbor z a_host_name (snd a) st1;
              st3 = ensure_l3_port z (ensure_l3_port a st2)
          in bind_outcome (set_vrf (a_vrf link) a st3)
              (\<lambda>st4. bind_outcome (set_vrf (z_vrf link) z st4)
              (\<lambda>st5. bind_outcome (l3_addressing vs link a z st5)
              (\<lambda>st6. bind_outcome (l3_ospf link a z st6)
                       (l3_bfd vs link a z)))))))"

subsection \<open>\<open>load_bgp_routers\<close> and \<open>load_bgp_neighbors\<close>: the loop bodies\<close>

definition load_bgp_router :: "string \<Rightarrow> int \<Rightarrow> loader \<Rightarrow> loader outcome" where
  "load_bgp_router host_name row_asn st =
     (case get_host st host_name of
        Inl e \<Rightarrow> Raised e st
      | Inr host \<Rightarrow>
          let c = (case config host of None \<Rightarrow> \<lparr>routing = None\<rparr> | Some c \<Rightarrow> c);
              r = (case routing c of None \<Rightarrow> \<lparr>bgp = None\<rparr> | Some r \<Rightarrow> r);
              p = (case bgp r of
                     None \<Rightarrow> \<lparr>asn = row_asn, neighbors = None, peer_groups = None\<rparr>
                   | Some p \<Rightarrow> p)
          in Done (st\<lparr>inv_hosts := (inv_hosts st)(host_name \<mapsto>
                        host\<lparr>config := Some (c\<lparr>routing := Some (r\<lparr>bgp := Some p\<rparr>)\<rparr>)\<rparr>)\<rparr>))"

text \<open>
  A row of the sheet \<open>bgp_neighbors\<close>: the host name and the row decoded into the
  \<open>BgpNeighbor\<close> model (imported from \<open>net_models.inventory\<close>).
\<close>

record BgpNeighborRow =
  row_host :: string
  row_neighbor :: BgpNeighbor

text \<open>Writing back the BGP process object of the host \<open>h\<close>.\<close>

definition set_bgp :: "string \<Rightarrow> RoutingBgpProcess \<Rightarrow> loader \<Rightarrow> loader" where
  "set_bgp h p st =
     st\<lparr>inv_hosts :=
          (\<lambda>h'. if h' = h
                then map_option
                       (\<lambda>host. host\<lparr>config :=
                          map_option (\<lambda>c. c\<lparr>routing :=
                            map_option (\<lambda>r. r\<lparr>bgp := Some p\<rparr>) (routing c)\<rparr>) (config host)\<rparr>)
                       (inv_hosts st h')
                else inv_hosts st h')\<rparr>"

definition append_neighbor :: "BgpNeighbor \<Rightarrow> RoutingBgpProcess \<Rightarrow> RoutingBgpProcess" where
  "append_neighbor n p =
     p\<lparr>neighbors := Some ((case neighbors p of None \<Rightarrow> [] | Some l \<Rightarrow> l) @ [n])\<rparr>"

text \<open>
  The attribute chain \<open>host.config.routing.bgp.neighbors\<close> raises at the first
  \<open>None\<close> on the way: reading \<open>routing\<close> on an absent config, \<open>bgp\<close> on an absent
  routing config, \<open>neighbors\<close> on an absent BGP process.
\<close>

definition load_bgp_neighbor :: "BgpPeerGroup list \<Rightarrow> BgpNeighborRow \<Rightarrow> loader \<Rightarrow> loader outcome" where
  "load_bgp_neighbor groups row st =
     (case get_host st (row_host row) of
        Inl e \<Rightarrow> Raised e st
      | Inr host \<Rightarrow>
     (case config host of
        None \<Rightarrow> Raised (AttributeError ''routing'') st
      | Some c \<Rightarrow>
     (case routing c of
        None \<Rightarrow> Raised (AttributeError ''bgp'') st
      | Some r \<Rightarrow>
     (case bgp r of
        None \<Rightarrow> Raised (AttributeError ''neighbors'') st
      | Some p \<Rightarrow>
          let p1 = (if neighbors p = None then p\<lparr>neighbors := Some []\<rparr> else p);
              neighbor = row_neighbor row
          in (case peer_group neighbor of
                None \<Rightarrow> Done (set_bgp (row_host row) (append_neighbor neighbor p1) st)
              | Some n \<Rightarrow>
                  (case filter (\<lambda>x. pg_name x = n) groups of
                     [] \<Rightarrow> Raised IndexError (set_bgp (row_host row) p1 st)
                   | g # _ \<Rightarrow>
                       let p2 = p1\<lparr>peer_groups :=
                                  Some ((case peer_groups p1 of None \<Rightarrow> [] | Some l \<Rightarrow> l) @ [g])\<rparr>
                       in Done (set_bgp (row_host row) (append_neighbor neighbor p2) st)))))))"

text \<open>The BGP process a host has, if any.\<close>

definition bgp_process_of :: "Host \<Rightarrow> RoutingBgpProcess option" where
  "bgp_process_of host =
     (case config host of
        None \<Rightarrow> None
      | Some c \<Rightarrow> (case routing c of None \<Rightarrow> None | Some r \<Rightarrow> bgp r))"

section \<open>Notions used in the statements\<close>

text \<open>The keys of the two end interfaces of a link.\<close>

definition a_key :: "'a Link_scheme \<Rightarrow> ifkey" where
  "a_key link = (a_host link, a_interface link)"

definition z_key :: "'a Link_scheme \<Rightarrow> ifkey" where
  "z_key link = (z_host link, z_interface link)"

text \<open>
  The statements of the loop body of \<open>load_l3_links\<close> after its first one, the decoding
  of the row: what \<open>load_l3_link\<close> does with a row that the link model has accepted.
\<close>

definition l3_link_statements :: "validators \<Rightarrow> L3LinkRow \<Rightarrow> loader \<Rightarrow> loader outcome" where
  "l3_link_statements vs link st =
     (case get_hosts_from_link st link of
        Inl e \<Rightarrow> Raised e st
      | Inr (a_host_name, z_host_name) \<Rightarrow>
     (case get_interfaces_from_link st link of
        Inl e \<Rightarrow> Raised e st
      | Inr (a, z) \<Rightarrow>
          let st1 = set_neighbor a z_host_name (snd z) st;
              st2 = set_neighbor z a_host_name (snd a) st1;
              st3 = ensure_l3_port z (ensure_l3_port a st2)
          in bind_outcome (set_vrf (a_vrf link) a st3)
              (\<lambda>st4. bind_outcome (set_vrf (z_vrf link) z st4)
              (\<lambda>st5. bind_outcome (l3_addressing vs link a z st5)
              (\<lambda>st6. bind_outcome (l3_ospf link a z st6)
                       (l3_bfd vs link a z))))))"

text \<open>
  These statements up to and including the addressing statements, that is, without the
  two template statements at the end.
\<close>

definition l3_link_prefix :: "validators \<Rightarrow> L3LinkRow \<Rightarrow> loader \<Rightarrow> loader outcome" where
  "l3_link_prefix vs link st =
     (case get_hosts_from_link st link of
        Inl e \<Rightarrow> Raised e st
      | Inr _ \<Rightarrow>
     (case get_interfaces_from_link st link of
        Inl e \<Rightarrow> Raised e st
      | Inr _ \<Rightarrow>
          let st1 = set_neighbor (a_key link) (z_host link) (z_interface link) st;
              st2 = set_neighbor (z_key link) (a_host link) (a_interface link) st1;
              st3 = ensure_l3_port (z_key link) (ensure_l3_port (a_key link) st2)
          in bind_outcome (set_vrf (a_vrf link) (a_key link) st3)
              (\<lambda>st4. bind_outcome (set_vrf (z_vrf link) (z_key link) st4)
                 (l3_addressing vs link (a_key link) (z_key link)))))"

text \<open>The part of the loader state that is not the interface store.\<close>

definition registry_of :: "loader \<Rightarrow> (string \<rightharpoonup> (string \<rightharpoonup> nat)) \<times> (nat \<Rightarrow> InterfaceOspfConfig) \<times> nat \<times> (string \<rightharpoonup> Host)" where
  "registry_of st = (templates st, ospf_store st, next_ref st, inv_hosts st)"

text \<open>A template name is registered when the OSPF registry exists and has an entry for it.\<close>

definition registered :: "loader \<Rightarrow> string \<Rightarrow> bool" where
  "registered st name =
     (case templates st ''ospf'' of None \<Rightarrow> False | Some registry \<Rightarrow> registry name \<noteq> None)"

text \<open>
  Validators for the examples: \<open>accept_all\<close> accepts every value; with
  \<open>paired_addresses\<close> the link model requires the two end addresses of a link together,
  both given or both absent.
\<close>

definition accept_all :: validators where
  "accept_all =
     \<lparr>ipv4_is_assignable = (\<lambda>_. True), GENERIC_OBJECT_NAME = (\<lambda>_. True),
      L3Link_accepts = (\<lambda>_. True)\<rparr>"

definition paired_addresses :: validators where
  "paired_addresses =
     \<lparr>ipv4_is_assignable = (\<lambda>_. True), GENERIC_OBJECT_NAME = (\<lambda>_. True),
      L3Link_accepts = (\<lambda>l. (a_ipv4_address l = None) = (z_ipv4_address l = None))\<rparr>"

text \<open>The attributes of an interface other than its routed port.\<close>

definition base_of :: "loader \<Rightarrow> ifkey \<Rightarrow> (InterfaceNeighbor option \<times> InterfaceDiscoveryProtocols option \<times> InterfaceLagMemberConfig option) option" where
  "base_of st k =
     map_option (\<lambda>i. (neighbor i, discovery_protocols i, lag_member i)) (inv_interfaces st k)"

text \<open>The hosts and the interfaces that a link row names are in the inventory.\<close>

definition link_resolves :: "loader \<Rightarrow> 'a Link_scheme \<Rightarrow> bool" where
  "link_resolves st link =
     (inv_hosts st (a_host link) \<noteq> None \<and> inv_hosts st (z_host link) \<noteq> None
      \<and> inv_interfaces st (a_key link) \<noteq> None \<and> inv_interfaces st (z_key link) \<noteq> None)"

text \<open>
  Both sides of a physical link name a LAG group, and one of the two Port-channel
  interfaces derived from the groups is itself an end interface of the link: the LAG
  section then writes a Port-channel neighbor onto an end interface.
\<close>

definition lag_rewrites_end :: "PhysicalLink \<Rightarrow> bool" where
  "lag_rewrites_end link =
     (case (a_lag_group link, z_lag_group link) of
        (Some ga, Some gz) \<Rightarrow>
          (a_host link, port_channel_name ga) = a_key link
          \<or> (a_host link, port_channel_name ga) = z_key link
          \<or> (z_host link, port_channel_name gz) = a_key link
          \<or> (z_host link, port_channel_name gz) = z_key link
      | _ \<Rightarrow> False)"

text \<open>
  Changing, in place, the OSPF configuration object attached to the interface \<open>k\<close>:
  the object the port's reference points to is replaced in the store.
\<close>

definition mutate_ospf ::
    "ifkey \<Rightarrow> (InterfaceOspfConfig \<Rightarrow> InterfaceOspfConfig) \<Rightarrow> loader \<Rightarrow> loader" where
  "mutate_ospf k f st =
     (case ospf_ref_of st k of
        None \<Rightarrow> st
      | Some r \<Rightarrow> st\<lparr>ospf_store := (ospf_store st)(r := f (ospf_store st r))\<rparr>)"

text \<open>
  The template \<open>name\<close> is registered and its object has been created: its reference
  is below \<open>next_ref\<close>, as it is for every template \<open>load_ospf_template\<close> has stored.
\<close>

definition allocated :: "loader \<Rightarrow> string \<Rightarrow> bool" where
  "allocated st name =
     (case templates st ''ospf'' of
        None \<Rightarrow> False
      | Some registry \<Rightarrow>
          (case registry name of None \<Rightarrow> False | Some r \<Rightarrow> r < next_ref st))"

section \<open>Example states\<close>

definition no_ospf_config :: InterfaceOspfConfig where
  "no_ospf_config =
     \<lparr>process_id = None, area = None, network_type = None, cost = None, priority = None,
      authentication = None, timers = None, bfd = None\<rparr>"

definition plain_interface :: InterfaceModel where
  "plain_interface =
     \<lparr>neighbor = None, discovery_protocols = None, lag_member = None, l3_port = None\<rparr>"

text \<open>
  Two hosts \<open>R1\<close> and \<open>R2\<close> without configuration, each with the interfaces \<open>Gi0/0\<close>
  and \<open>Port-channel1\<close>; no template registry.
\<close>

definition two_routers :: loader where
  "two_routers =
     \<lparr>inv_hosts = [''R1'' \<mapsto> \<lparr>config = None\<rparr>, ''R2'' \<mapsto> \<lparr>config = None\<rparr>],
      inv_interfaces = [(''R1'', ''Gi0/0'') \<mapsto> plain_interface,
                        (''R1'', ''Port-channel1'') \<mapsto> plain_interface,
                        (''R2'', ''Gi0/0'') \<mapsto> plain_interface,
                        (''R2'', ''Port-channel1'') \<mapsto> plain_interface],
      templates = Map.empty,
      ospf_store = (\<lambda>_. no_ospf_config),
      next_ref = 0\<rparr>"

text \<open>Rows for the examples.\<close>

definition lag_member_row :: PhysicalLink where
  "lag_member_row =
     \<lparr>a_host = ''R1'', a_interface = ''Gi0/0'', z_host = ''R2'', z_interface = ''Gi0/0'',
      a_lag_group = Some 1, a_lag_mode = None, z_lag_group = Some 1, z_lag_mode = None,
      row_cdp_enabled = Some (Some (CellBool True))\<rparr>"

definition port_channel_end_row :: PhysicalLink where
  "port_channel_end_row =
     \<lparr>a_host = ''R1'', a_interface = ''Port-channel1'', z_host = ''R2'', z_interface = ''Gi0/0'',
      a_lag_group = Some 1, a_lag_mode = None, z_lag_group = Some 1, z_lag_mode = None,
      row_cdp_enabled = None\<rparr>"

definition routed_row :: L3LinkRow where
  "routed_row =
     \<lparr>a_host = ''R1'', a_interface = ''Gi0/0'', z_host = ''R2'', z_interface = ''Gi0/0'',
      a_vrf = None, z_vrf = Some ''blue'', a_ipv4_address = None, z_ipv4_address = None,
      ipv4_network = Some \<lparr>network_address = 167772160, prefixlen = 30\<rparr>,
      row_ospf_template = None, row_bfd_template = None\<rparr>"

text \<open>The same inventory, with CDP already disabled on \<open>Gi0/0\<close> of \<open>R2\<close>.\<close>

definition two_routers_cdp :: loader where
  "two_routers_cdp =
     update_interface (''R2'', ''Gi0/0'')
       (\<lambda>m. m\<lparr>discovery_protocols := Some \<lparr>cdp = Some \<lparr>cdp_enabled = Some False\<rparr>\<rparr>\<rparr>)
       two_routers"

definition lone_address_row :: L3LinkRow where
  "lone_address_row =
     \<lparr>a_host = ''R1'', a_interface = ''Gi0/0'', z_host = ''R2'', z_interface = ''Gi0/0'',
      a_vrf = None, z_vrf = None,
      a_ipv4_address = Some \<lparr>ip = 167772161, if_prefixlen = 30\<rparr>, z_ipv4_address = None,
      ipv4_network = None, row_ospf_template = None, row_bfd_template = None\<rparr>"

definition host_route_row :: L3LinkRow where
  "host_route_row =
     \<lparr>a_host = ''R1'', a_interface = ''Gi0/0'', z_host = ''R2'', z_interface = ''Gi0/0'',
      a_vrf = None, z_vrf = None, a_ipv4_address = None, z_ipv4_address = None,
      ipv4_network = Some \<lparr>network_address = 167772161, prefixlen = 32\<rparr>,
      row_ospf_template = None, row_bfd_template = None\<rparr>"

text \<open>The inventory after the template \<open>P2P\<close> has been loaded, and a row that names it.\<close>

definition p2p_config :: InterfaceOspfConfig where
  "p2p_config =
     \<lparr>process_id = Some 1, area = Some 0, network_type = Some ''point-to-point'',
      cost = None, priority = None, authentication = None, timers = None, bfd = None\<rparr>"

definition two_routers_ospf :: loader where
  "two_routers_ospf =
     final_state (load_ospf_template ''P2P'' p2p_config (ensure_ospf_registry two_routers))"

definition ospf_row :: L3LinkRow where
  "ospf_row =
     \<lparr>a_host = ''R1'', a_interface = ''Gi0/0'', z_host = ''R2'', z_interface = ''Gi0/0'',
      a_vrf = None, z_vrf = None, a_ipv4_address = None, z_ipv4_address = None,
      ipv4_network = None, row_ospf_template = Some ''P2P'', row_bfd_template = None\<rparr>"

definition unknown_template_row :: L3LinkRow where
  "unknown_template_row =
     \<lparr>a_host = ''R1'', a_interface = ''Gi0/0'', z_host = ''R2'', z_interface = ''Gi0/0'',
      a_vrf = None, z_vrf = None, a_ipv4_address = None, z_ipv4_address = None,
      ipv4_network = None, row_ospf_template = Some ''BACKBONE'', row_bfd_template = None\<rparr>"

definition integer_flag_row :: PhysicalLink where
  "integer_flag_row =
     \<lparr>a_host = ''R1'', a_interface = ''Gi0/0'', z_host = ''R2'', z_interface = ''Gi0/0'',
      a_lag_group = None, a_lag_mode = None, z_lag_group = None, z_lag_mode = None,
      row_cdp_enabled = Some (Some (CellInt 1))\<rparr>"

section \<open>Properties\<close>

subsection \<open>Auxiliary facts\<close>

lemma inv_interfaces_update_interface [simp]:
  "inv_interfaces (update_interface k f st) k' =
     (if k' = k then map_option f (inv_interfaces st k') else inv_interfaces st k')"
  by (simp add: update_interface_def)

lemma other_update_interface [simp]:
  "inv_hosts (update_interface k f st) = inv_hosts st"
  "templates (update_interface k f st) = templates st"
  "ospf_store (update_interface k f st) = ospf_store st"
  "next_ref (update_interface k f st) = next_ref st"
  by (simp_all add: update_interface_def)

lemma final_state_bind:
  "final_state (bind_outcome m f) = (case m of Done s \<Rightarrow> final_state (f s) | Raised e s \<Rightarrow> s)"
  by (cases m) simp_all

lemma bind_outcome_assoc:
  "bind_outcome (bind_outcome m f) g = bind_outcome m (\<lambda>s. bind_outcome (f s) g)"
  by (cases m) simp_all

lemma bind_outcome_Done_right [simp]: "bind_outcome m Done = m"
  by (cases m) simp_all

lemma get_hosts_from_link_Inr:
  "get_hosts_from_link st link = Inr hs \<Longrightarrow> hs = (a_host link, z_host link)"
  by (auto simp: get_hosts_from_link_def split: sum.splits)

lemma get_interfaces_from_link_Inr:
  "get_interfaces_from_link st link = Inr ks \<Longrightarrow> ks = (a_key link, z_key link)"
  by (auto simp: get_interfaces_from_link_def get_interface_def a_key_def z_key_def
      split: sum.splits option.splits)

lemma l3_link_statements_split:
  "l3_link_statements vs link st =
     bind_outcome (l3_link_prefix vs link st)
       (\<lambda>s. bind_outcome (l3_ospf link (a_key link) (z_key link) s)
                (l3_bfd vs link (a_key link) (z_key link)))"
proof (cases "get_hosts_from_link st link")
  case (Inl e)
  then show ?thesis by (simp add: l3_link_statements_def l3_link_prefix_def)
next
  case (Inr hs)
  note hs = Inr
  show ?thesis
  proof (cases "get_interfaces_from_link st link")
    case (Inl e)
    with hs show ?thesis by (simp add: l3_link_statements_def l3_link_prefix_def split: prod.splits)
  next
    case (Inr ks)
    with hs get_hosts_from_link_Inr [OF hs] get_interfaces_from_link_Inr [OF Inr]
    show ?thesis
      by (simp add: l3_link_statements_def l3_link_prefix_def bind_outcome_assoc Let_def
          a_key_def z_key_def)
  qed
qed

lemma frame_bind:
  assumes "obs (final_state m) = obs st" and "\<And>s. obs (final_state (f s)) = obs s"
  shows "obs (final_state (bind_outcome m f)) = obs st"
  using assms by (cases m) simp_all

lemma registry_update_interface [simp]:
  "registry_of (update_interface k f st) = registry_of st"
  by (simp add: registry_of_def)

lemma registry_set_vrf: "registry_of (final_state (set_vrf v k st)) = registry_of st"
  by (simp add: set_vrf_def update_port_def split: sum.splits)

lemma registry_ensure_ipv4: "registry_of (final_state (ensure_ipv4 k st)) = registry_of st"
  by (simp add: ensure_ipv4_def update_port_def split: sum.splits)

lemma registry_port_add:
  "registry_of (final_state (port_add_ipv4_address vs x k st)) = registry_of st"
  by (simp add: port_add_ipv4_address_def update_port_def split: sum.splits outcome.splits)

lemma registry_l3_addressing:
  "registry_of (final_state (l3_addressing vs link a z st)) = registry_of st"
  unfolding l3_addressing_def
  apply (rule frame_bind)
   apply (simp add: registry_ensure_ipv4 frame_bind [where obs = registry_of])
  apply (simp split: option.splits list.splits add: registry_port_add frame_bind [where obs = registry_of] Let_def)
  done

lemma registry_l3_link_prefix:
  "registry_of (final_state (l3_link_prefix vs link st)) = registry_of st"
  unfolding l3_link_prefix_def
  by (simp split: sum.splits add: Let_def set_neighbor_def ensure_l3_port_def
      frame_bind [where obs = registry_of] registry_set_vrf registry_l3_addressing)

lemma ignores_templates [simp]:
  "a_key (link\<lparr>row_ospf_template := t, row_bfd_template := b\<rparr>) = a_key link"
  "z_key (link\<lparr>row_ospf_template := t, row_bfd_template := b\<rparr>) = z_key link"
  "get_hosts_from_link st (link\<lparr>row_ospf_template := t, row_bfd_template := b\<rparr>)
     = get_hosts_from_link st link"
  "get_interfaces_from_link st (link\<lparr>row_ospf_template := t, row_bfd_template := b\<rparr>)
     = get_interfaces_from_link st link"
  by (simp_all add: a_key_def z_key_def get_hosts_from_link_def get_interfaces_from_link_def
      cong: sum.case_cong)

lemma l3_addressing_ignores_templates [simp]:
  "l3_addressing vs (link\<lparr>row_ospf_template := t, row_bfd_template := b\<rparr>) a z
     = l3_addressing vs link a z"
  by (rule ext) (simp add: l3_addressing_def cong: option.case_cong if_cong)

lemma l3_link_prefix_ignores_templates:
  "l3_link_prefix vs (link\<lparr>row_ospf_template := t, row_bfd_template := b\<rparr>) st
     = l3_link_prefix vs link st"
  by (simp add: l3_link_prefix_def Let_def cong: sum.case_cong)

lemma l3_ospf_unregistered:
  assumes "row_ospf_template link = Some name" and "\<not> registered st name"
  shows "l3_ospf link a z st =
           Raised (if templates st ''ospf'' = None then KeyError ''ospf''
                   else AttributeError ''clone'') st"
  using assms by (auto simp: l3_ospf_def registered_def split: option.splits)

lemma registered_cong: "registry_of s = registry_of st \<Longrightarrow> registered s name = registered st name"
  by (simp add: registered_def registry_of_def)

lemma neighbor_of_base: "neighbor_of st k = (case base_of st k of None \<Rightarrow> None | Some b \<Rightarrow> fst b)"
  by (simp add: neighbor_of_def base_of_def split: option.splits)

lemma discovery_of_base:
  "discovery_of st k = (case base_of st k of None \<Rightarrow> None | Some b \<Rightarrow> fst (snd b))"
  by (simp add: discovery_of_def base_of_def split: option.splits)

lemma base_update_port [simp]: "base_of (update_port k f st) k' = base_of st k'"
  by (cases "inv_interfaces st k") (simp_all add: base_of_def update_port_def)

lemma base_ensure_l3_port [simp]: "base_of (ensure_l3_port k st) k' = base_of st k'"
  by (cases "inv_interfaces st k") (simp_all add: base_of_def ensure_l3_port_def)

lemma base_set_vrf: "base_of (final_state (set_vrf v k st)) k' = base_of st k'"
  by (simp add: set_vrf_def split: sum.splits)

lemma base_ensure_ipv4: "base_of (final_state (ensure_ipv4 k st)) k' = base_of st k'"
  by (simp add: ensure_ipv4_def split: sum.splits)

lemma base_port_add: "base_of (final_state (port_add_ipv4_address vs x k st)) k' = base_of st k'"
  by (simp add: port_add_ipv4_address_def split: sum.splits outcome.splits)

lemma base_l3_addressing: "base_of (final_state (l3_addressing vs link a z st)) k' = base_of st k'"
  unfolding l3_addressing_def
  apply (rule frame_bind [where obs = "\<lambda>s. base_of s k'"])
   apply (simp add: base_ensure_ipv4 frame_bind [where obs = "\<lambda>s. base_of s k'"])
  apply (simp split: option.splits list.splits
      add: base_port_add frame_bind [where obs = "\<lambda>s. base_of s k'"] Let_def)
  done

lemma clone_interfaces:
  "InterfaceOspfConfig_clone r st = Inr (r', st') \<Longrightarrow>
     inv_interfaces st' = inv_interfaces st \<and> templates st' = templates st
     \<and> inv_hosts st' = inv_hosts st"
  by (auto simp: InterfaceOspfConfig_clone_def split: sum.splits)

lemma base_cong: "inv_interfaces st' = inv_interfaces st \<Longrightarrow> base_of st' k = base_of st k"
  by (simp add: base_of_def)

lemma base_apply_ospf: "base_of (final_state (apply_ospf_template r k st)) k' = base_of st k'"
  by (auto simp: apply_ospf_template_def split: sum.splits prod.splits
      dest!: clone_interfaces intro: base_cong)

lemma base_l3_ospf: "base_of (final_state (l3_ospf link a z st)) k' = base_of st k'"
  by (simp add: l3_ospf_def base_apply_ospf frame_bind [where obs = "\<lambda>s. base_of s k'"]
      split: option.splits)

lemma base_set_bfd: "base_of (final_state (set_bfd vs n k st)) k' = base_of st k'"
  by (simp add: set_bfd_def split: sum.splits)

lemma base_l3_bfd: "base_of (final_state (l3_bfd vs link a z st)) k' = base_of st k'"
  by (simp add: l3_bfd_def base_set_bfd frame_bind [where obs = "\<lambda>s. base_of s k'"]
      split: option.splits)

lemma neighbor_set_neighbor:
  "neighbor_of (set_neighbor k h i st) k' =
     (if k' = k \<and> inv_interfaces st k \<noteq> None then Some \<lparr>nb_host = h, nb_interface = i\<rparr>
      else neighbor_of st k')"
  by (auto simp: neighbor_of_def set_neighbor_def split: option.splits)

lemma dom_set_neighbor [simp]:
  "(inv_interfaces (set_neighbor k h i st) k' = None) = (inv_interfaces st k' = None)"
  by (simp add: set_neighbor_def)

lemma get_interfaces_from_link_dom:
  "get_interfaces_from_link st link = Inr ks \<Longrightarrow>
     inv_interfaces st (a_key link) \<noteq> None \<and> inv_interfaces st (z_key link) \<noteq> None"
  by (auto simp: get_interfaces_from_link_def get_interface_def a_key_def z_key_def
      split: sum.splits option.splits)

lemma l3_link_prefix_Done:
  assumes "l3_link_prefix vs link st = Done s"
  shows "neighbor_of s (a_key link) = Some \<lparr>nb_host = z_host link, nb_interface = z_interface link\<rparr>
       \<and> neighbor_of s (z_key link) = Some \<lparr>nb_host = a_host link, nb_interface = a_interface link\<rparr>"
proof -
  obtain hs ks where hs: "get_hosts_from_link st link = Inr hs"
    and ks: "get_interfaces_from_link st link = Inr ks"
    using assms by (auto simp: l3_link_prefix_def split: sum.splits)
  let ?st2 = "set_neighbor (z_key link) (a_host link) (a_interface link)
                (set_neighbor (a_key link) (z_host link) (z_interface link) st)"
  let ?st3 = "ensure_l3_port (z_key link) (ensure_l3_port (a_key link) ?st2)"
  have s: "s = final_state (bind_outcome (set_vrf (a_vrf link) (a_key link) ?st3)
              (\<lambda>st4. bind_outcome (set_vrf (z_vrf link) (z_key link) st4)
                 (l3_addressing vs link (a_key link) (z_key link))))"
    using assms hs ks by (simp add: l3_link_prefix_def Let_def)
  have b: "base_of s k = base_of ?st2 k" for k
    unfolding s
    by (simp add: frame_bind [where obs = "\<lambda>s. base_of s k"] base_set_vrf base_l3_addressing)
  have n: "neighbor_of s k = neighbor_of ?st2 k" for k
    by (simp add: neighbor_of_base b)
  show ?thesis
    using get_interfaces_from_link_dom [OF ks]
    by (auto simp: n neighbor_set_neighbor a_key_def z_key_def)
qed

lemma bind_outcome_Done:
  "bind_outcome m f = Done s \<Longrightarrow> \<exists>s1. m = Done s1 \<and> f s1 = Done s"
  by (cases m) simp_all

lemma l3_link_neighbors:
  assumes "l3_link_statements vs link st = Done s"
  shows "neighbor_of s (a_key link) = Some \<lparr>nb_host = z_host link, nb_interface = z_interface link\<rparr>
       \<and> neighbor_of s (z_key link) = Some \<lparr>nb_host = a_host link, nb_interface = a_interface link\<rparr>"
proof -
  obtain s1 where p: "l3_link_prefix vs link st = Done s1"
    and r: "bind_outcome (l3_ospf link (a_key link) (z_key link) s1)
              (l3_bfd vs link (a_key link) (z_key link)) = Done s"
    using assms unfolding l3_link_statements_split by (auto dest: bind_outcome_Done)
  have "base_of s k = base_of s1 k" for k
    using frame_bind [where obs = "\<lambda>s. base_of s k" and st = s1
        and m = "l3_ospf link (a_key link) (z_key link) s1"
        and f = "l3_bfd vs link (a_key link) (z_key link)"] r
    by (simp add: base_l3_ospf base_l3_bfd)
  then have "neighbor_of s k = neighbor_of s1 k" for k
    by (simp add: neighbor_of_base)
  then show ?thesis using l3_link_prefix_Done [OF p] by simp
qed

lemma load_physical_link_split:
  "load_physical_link d link st =
     (if link_resolves st link
      then bind_outcome
             (cdp_section (row_cdp_enabled link) (a_key link) (z_key link)
                (set_neighbor (z_key link) (a_host link) (a_interface link)
                   (set_neighbor (a_key link) (z_host link) (z_interface link) st)))
             (lag_section d link (a_key link) (z_key link))
      else Raised UnknownEntity st)"
  by (auto simp: load_physical_link_def link_resolves_def get_host_def get_interface_def
      a_key_def z_key_def Let_def split: option.splits sum.splits)

lemma neighbor_update_other:
  "(\<And>i. neighbor (f i) = neighbor i) \<Longrightarrow>
     neighbor_of (update_interface k f st) k' = neighbor_of st k'"
  by (cases "inv_interfaces st k") (simp_all add: neighbor_of_def)

lemma discovery_update_other:
  "(\<And>i. discovery_protocols (f i) = discovery_protocols i) \<Longrightarrow>
     discovery_of (update_interface k f st) k' = discovery_of st k'"
  by (cases "inv_interfaces st k") (simp_all add: discovery_of_def)

lemma discovery_set_neighbor [simp]:
  "discovery_of (set_neighbor k h i st) k' = discovery_of st k'"
  by (simp add: set_neighbor_def discovery_update_other)

lemma neighbor_cdp_apply: "neighbor_of (final_state (cdp_apply c k st)) k' = neighbor_of st k'"
  by (simp add: cdp_apply_def neighbor_update_other split: option.splits)

lemma neighbor_cdp_section:
  "neighbor_of (final_state (cdp_section c a z st)) k' = neighbor_of st k'"
  by (simp add: cdp_section_def neighbor_cdp_apply Let_def
      frame_bind [where obs = "\<lambda>s. neighbor_of s k'"] split: option.splits)

lemma neighbor_lag_side:
  "neighbor_of (final_state (lag_side d h g m k st)) k' = neighbor_of st k'"
  by (simp add: lag_side_def neighbor_update_other split: option.splits sum.splits)

lemma discovery_lag_side:
  "discovery_of (final_state (lag_side d h g m k st)) k' = discovery_of st k'"
  by (simp add: lag_side_def discovery_update_other split: option.splits sum.splits)

lemma discovery_lag_section:
  "discovery_of (final_state (lag_section d link a z st)) k' = discovery_of st k'"
  unfolding lag_section_def
  apply (rule frame_bind [where obs = "\<lambda>s. discovery_of s k'"])
   apply (rule discovery_lag_side)
  apply (rule frame_bind [where obs = "\<lambda>s. discovery_of s k'"])
   apply (rule discovery_lag_side)
  apply (simp split: option.splits)
  done

lemma neighbor_lag_section:
  assumes "case (a_lag_group link, z_lag_group link) of
             (Some ga, Some gz) \<Rightarrow>
               k' \<noteq> (a_host link, port_channel_name ga) \<and> k' \<noteq> (z_host link, port_channel_name gz)
           | _ \<Rightarrow> True"
  shows "neighbor_of (final_state (lag_section d link a z st)) k' = neighbor_of st k'"
  unfolding lag_section_def
  apply (rule frame_bind [where obs = "\<lambda>s. neighbor_of s k'"])
   apply (rule neighbor_lag_side)
  apply (rule frame_bind [where obs = "\<lambda>s. neighbor_of s k'"])
   apply (rule neighbor_lag_side)
  using assms apply (auto split: option.splits simp: neighbor_set_neighbor)
  done

lemma physical_link_neighbors:
  assumes "load_physical_link d link st = Done s" and "\<not> lag_rewrites_end link"
  shows "neighbor_of s (a_key link) = Some \<lparr>nb_host = z_host link, nb_interface = z_interface link\<rparr>
       \<and> neighbor_of s (z_key link) = Some \<lparr>nb_host = a_host link, nb_interface = a_interface link\<rparr>"
proof -
  let ?st2 = "set_neighbor (z_key link) (a_host link) (a_interface link)
                (set_neighbor (a_key link) (z_host link) (z_interface link) st)"
  have res: "link_resolves st link"
    using assms(1) by (simp add: load_physical_link_split split: if_splits)
  then obtain s3 where c: "cdp_section (row_cdp_enabled link) (a_key link) (z_key link) ?st2 = Done s3"
    and l: "lag_section d link (a_key link) (z_key link) s3 = Done s"
    using assms(1) by (auto simp: load_physical_link_split dest: bind_outcome_Done)
  have ok: "case (a_lag_group link, z_lag_group link) of
             (Some ga, Some gz) \<Rightarrow>
               k \<noteq> (a_host link, port_channel_name ga) \<and> k \<noteq> (z_host link, port_channel_name gz)
           | _ \<Rightarrow> True" if "k = a_key link \<or> k = z_key link" for k
    using assms(2) that by (auto simp: lag_rewrites_end_def split: option.splits)
  have n1: "neighbor_of s k = neighbor_of s3 k" if "k = a_key link \<or> k = z_key link" for k
    using neighbor_lag_section [OF ok [OF that], of d "a_key link" "z_key link" s3] l by simp
  have n2: "neighbor_of s3 k = neighbor_of ?st2 k" for k
    using neighbor_cdp_section [of "row_cdp_enabled link" "a_key link" "z_key link" ?st2 k] c
    by simp
  show ?thesis
    using res by (auto simp: n1 n2 neighbor_set_neighbor link_resolves_def a_key_def z_key_def)
qed

lemma is_Done_final: "is_Done m \<Longrightarrow> m = Done (final_state m)"
  by (cases m) simp_all

lemma port_channel_name_1 [simp]: "port_channel_name (Suc 0) = ''Port-channel1''"
  by (simp add: port_channel_name_def decimal.simps)

lemmas eval_physical =
  load_physical_link_def get_host_def get_interface_def two_routers_def set_neighbor_def
  update_interface_def cdp_section_def cdp_apply_def lag_section_def lag_side_def
  plain_interface_def InterfaceCdpConfig_clone_def Let_def

lemmas eval_l3 =
  load_l3_link_def row_to_model_L3Link_def L3Link.truncate_def l3_link_statements_def
  paired_addresses_def get_hosts_from_link_def get_interfaces_from_link_def
  get_host_def get_interface_def two_routers_def set_neighbor_def
  update_interface_def update_port_def ensure_l3_port_def set_vrf_def get_port_def
  l3_addressing_def ensure_ipv4_def port_add_ipv4_address_def add_ipv4_address_def
  InterfaceIPv4Address_new_def InterfaceIPv4Container_clone_def
  InterfaceIPv4Container_validate_def validate_non_overlapping_def
  validate_single_primary_def overlaps_other_def failures_def in_network_def
  interface_network_def network_hosts_def broadcast_address_def
  InterfaceIPv4Container_empty_def InterfaceRouteportModel_empty_def
  l3_ospf_def l3_bfd_def accept_all_def
  plain_interface_def Let_def

lemma cdp_apply_Some:
  assumes "inv_interfaces st k \<noteq> None"
  shows "\<exists>s. cdp_apply (Some c) k st = Done s
           \<and> (\<forall>k'. discovery_of s k' =
                  (if k' = k \<and> discovery_of st k = None
                   then Some \<lparr>cdp = Some c\<rparr> else discovery_of st k'))
           \<and> (\<forall>k'. (inv_interfaces s k' = None) = (inv_interfaces st k' = None))"
  using assms
  by (auto simp: cdp_apply_def discovery_of_def InterfaceCdpConfig_clone_def
      split: option.splits)

lemma cdp_section_bool:
  assumes "inv_interfaces st a \<noteq> None" and "inv_interfaces st z \<noteq> None"
  shows "\<exists>s. cdp_section (Some (Some (CellBool b))) a z st = Done s
           \<and> (\<forall>k'. discovery_of s k' =
                  (if (k' = a \<or> k' = z) \<and> discovery_of st k' = None
                   then Some \<lparr>cdp = Some \<lparr>cdp_enabled = Some b\<rparr>\<rparr> else discovery_of st k'))"
proof -
  let ?c = "\<lparr>cdp_enabled = Some b\<rparr>"
  have cfg: "(if CellBool b = CellBool True then Some \<lparr>cdp_enabled = Some True\<rparr>
              else if CellBool b = CellBool False then Some \<lparr>cdp_enabled = Some False\<rparr>
              else None) = Some ?c"
    by (cases b) simp_all
  obtain s1 where 1: "cdp_apply (Some ?c) a st = Done s1"
    and d1: "\<And>k'. discovery_of s1 k' =
                  (if k' = a \<and> discovery_of st a = None
                   then Some \<lparr>cdp = Some ?c\<rparr> else discovery_of st k')"
    and e1: "\<And>k'. (inv_interfaces s1 k' = None) = (inv_interfaces st k' = None)"
    using cdp_apply_Some [OF assms(1), of ?c] by blast
  have "inv_interfaces s1 z \<noteq> None" using assms(2) e1 by simp
  then obtain s2 where 2: "cdp_apply (Some ?c) z s1 = Done s2"
    and d2: "\<And>k'. discovery_of s2 k' =
                  (if k' = z \<and> discovery_of s1 z = None
                   then Some \<lparr>cdp = Some ?c\<rparr> else discovery_of s1 k')"
    using cdp_apply_Some [of s1 z ?c] by blast
  have "cdp_section (Some (Some (CellBool b))) a z st = Done s2"
    unfolding cdp_section_def using 1 2 by (simp add: cfg del: cell.inject)
  moreover have "discovery_of s2 k' =
                  (if (k' = a \<or> k' = z) \<and> discovery_of st k' = None
                   then Some \<lparr>cdp = Some ?c\<rparr> else discovery_of st k')" for k'
    by (auto simp: d1 d2)
  ultimately show ?thesis by blast
qed

lemma ipv4_update_interface:
  assumes "\<And>i. (case l3_port (f i) of None \<Rightarrow> None | Some p \<Rightarrow> ipv4 p)
                = (case l3_port i of None \<Rightarrow> None | Some p \<Rightarrow> ipv4 p)"
  shows "ipv4_of (update_interface k f st) k' = ipv4_of st k'"
  by (cases "inv_interfaces st k") (simp_all add: ipv4_of_def port_of_def assms)

lemma ipv4_set_neighbor [simp]: "ipv4_of (set_neighbor k h i st) k' = ipv4_of st k'"
  by (simp add: set_neighbor_def ipv4_update_interface)

lemma ipv4_ensure_l3_port [simp]: "ipv4_of (ensure_l3_port k st) k' = ipv4_of st k'"
  by (simp add: ensure_l3_port_def ipv4_update_interface InterfaceRouteportModel_empty_def)

lemma ipv4_update_port:
  "(\<And>p. ipv4 (f p) = ipv4 p) \<Longrightarrow> ipv4_of (update_port k f st) k' = ipv4_of st k'"
  by (simp add: update_port_def ipv4_update_interface split: option.splits)

lemma ipv4_set_vrf: "ipv4_of (final_state (set_vrf v k st)) k' = ipv4_of st k'"
  by (simp add: set_vrf_def ipv4_update_port split: sum.splits)

lemma ipv4_cong: "inv_interfaces st' = inv_interfaces st \<Longrightarrow> ipv4_of st' k = ipv4_of st k"
  by (simp add: ipv4_of_def port_of_def)

lemma ipv4_apply_ospf: "ipv4_of (final_state (apply_ospf_template r k st)) k' = ipv4_of st k'"
  by (auto simp: apply_ospf_template_def ipv4_update_port split: sum.splits prod.splits
      dest!: clone_interfaces intro: ipv4_cong)

lemma ipv4_l3_ospf: "ipv4_of (final_state (l3_ospf link a z st)) k' = ipv4_of st k'"
  by (simp add: l3_ospf_def ipv4_apply_ospf frame_bind [where obs = "\<lambda>s. ipv4_of s k'"]
      split: option.splits)

lemma ipv4_set_bfd: "ipv4_of (final_state (set_bfd vs n k st)) k' = ipv4_of st k'"
  by (simp add: set_bfd_def ipv4_update_port split: sum.splits)

lemma ipv4_l3_bfd: "ipv4_of (final_state (l3_bfd vs link a z st)) k' = ipv4_of st k'"
  by (simp add: l3_bfd_def ipv4_set_bfd frame_bind [where obs = "\<lambda>s. ipv4_of s k'"]
      split: option.splits)

lemma addresses_of_ipv4:
  "addresses_of st k =
     (case ipv4_of st k of None \<Rightarrow> []
      | Some c \<Rightarrow> (case addresses c of None \<Rightarrow> [] | Some l \<Rightarrow> l))"
  by (simp add: addresses_of_def ipv4_of_def port_addresses_def split: option.splits)

lemma l3_addressing_lone:
  assumes "(a_ipv4_address link = None) \<noteq> (z_ipv4_address link = None)"
    and "ipv4_network link = None"
  shows "l3_addressing vs link a z st = Done st"
  using assms by (auto simp: l3_addressing_def split: option.splits)

lemma l3_addressing_none:
  assumes "a_ipv4_address link = None" and "z_ipv4_address link = None"
    and "ipv4_network link = None"
  shows "l3_addressing vs link a z st = Done st"
  using assms by (auto simp: l3_addressing_def split: option.splits)

lemma ignores_addresses [simp]:
  "a_key (link\<lparr>a_ipv4_address := x, z_ipv4_address := y\<rparr>) = a_key link"
  "z_key (link\<lparr>a_ipv4_address := x, z_ipv4_address := y\<rparr>) = z_key link"
  "get_hosts_from_link st (link\<lparr>a_ipv4_address := x, z_ipv4_address := y\<rparr>)
     = get_hosts_from_link st link"
  "get_interfaces_from_link st (link\<lparr>a_ipv4_address := x, z_ipv4_address := y\<rparr>)
     = get_interfaces_from_link st link"
  "l3_ospf (link\<lparr>a_ipv4_address := x, z_ipv4_address := y\<rparr>) = l3_ospf link"
  "l3_bfd vs (link\<lparr>a_ipv4_address := x, z_ipv4_address := y\<rparr>) = l3_bfd vs link"
  by (simp_all add: a_key_def z_key_def get_hosts_from_link_def get_interfaces_from_link_def
      l3_ospf_def l3_bfd_def fun_eq_iff cong: sum.case_cong)

lemma l3_link_prefix_lone:
  assumes "(a_ipv4_address link = None) \<noteq> (z_ipv4_address link = None)"
    and "ipv4_network link = None"
  shows "l3_link_prefix vs link st
       = l3_link_prefix vs (link\<lparr>a_ipv4_address := None, z_ipv4_address := None\<rparr>) st"
proof -
  have 1: "l3_addressing vs link a z = Done" for a z
    using l3_addressing_lone [OF assms] by (simp add: fun_eq_iff)
  have 2: "l3_addressing vs (link\<lparr>a_ipv4_address := None, z_ipv4_address := None\<rparr>) a z = Done"
    for a z
    using assms(2) by (simp add: fun_eq_iff l3_addressing_none)
  show ?thesis
    by (simp add: l3_link_prefix_def 1 2 Let_def cong: sum.case_cong)
qed

lemma ipv4_l3_link_prefix_lone:
  assumes "(a_ipv4_address link = None) \<noteq> (z_ipv4_address link = None)"
    and "ipv4_network link = None"
  shows "ipv4_of (final_state (l3_link_prefix vs link st)) k = ipv4_of st k"
proof -
  have 1: "l3_addressing vs link a z = Done" for a z
    using l3_addressing_lone [OF assms] by (simp add: fun_eq_iff)
  show ?thesis
    by (simp add: l3_link_prefix_def 1 Let_def ipv4_set_vrf
        frame_bind [where obs = "\<lambda>s. ipv4_of s k"] split: sum.splits)
qed

lemma clone_container_Inr: "InterfaceIPv4Container_clone c = Inr c' \<Longrightarrow> c' = c"
  by (auto simp: InterfaceIPv4Container_clone_def InterfaceIPv4Container_validate_def Let_def
      split: if_splits)

lemma add_ipv4_address_Done:
  assumes "add_ipv4_address p (Plain x) self = Done self'"
  shows "port_addresses self' = port_addresses self @ [\<lparr>address = x, secondary = None\<rparr>]"
  using assms
  by (auto simp: add_ipv4_address_def InterfaceIPv4Address_new_def port_addresses_def Let_def
      InterfaceIPv4Container_empty_def
      split: option.splits sum.splits if_splits dest!: clone_container_Inr)

lemma port_of_update_port:
  "port_of (update_port k f st) k' =
     (if k' = k then map_option f (port_of st k) else port_of st k')"
  by (cases "inv_interfaces st k") (simp_all add: port_of_def update_port_def)

lemma get_port_Inr: "get_port st k attr = Inr p \<Longrightarrow> port_of st k = Some p"
  by (auto simp: get_port_def port_of_def split: option.splits)

lemma port_add_Done:
  assumes "port_add_ipv4_address vs x k st = Done s"
  shows "addresses_of s k' =
           (if k' = k then addresses_of st k @ [\<lparr>address = x, secondary = None\<rparr>]
            else addresses_of st k')"
  using assms
  by (auto simp: port_add_ipv4_address_def addresses_of_def port_of_update_port
      split: sum.splits outcome.splits dest!: get_port_Inr add_ipv4_address_Done)

lemma addresses_ensure_ipv4:
  "addresses_of (final_state (ensure_ipv4 k st)) k' = addresses_of st k'"
  by (auto simp: ensure_ipv4_def addresses_of_def port_of_update_port port_addresses_def
      InterfaceIPv4Container_empty_def split: sum.splits dest!: get_port_Inr)

lemma power_ge_4:
  assumes "p \<le> 30"
  shows "(4::nat) \<le> 2 ^ (32 - p)"
proof -
  have "(2::nat) ^ 2 \<le> 2 ^ (32 - p)"
    using assms by (intro power_increasing) simp_all
  then show ?thesis by simp
qed

lemma network_hosts_cases:
  assumes "valid_network net"
  shows "network_hosts net \<noteq> []"
    and "prefixlen net \<le> 30 \<Longrightarrow>
           hd (network_hosts net) = network_address net + 1
           \<and> last (network_hosts net) = network_address net + 2 ^ (32 - prefixlen net) - 2"
    and "prefixlen net = 31 \<Longrightarrow>
           hd (network_hosts net) = network_address net
           \<and> last (network_hosts net) = network_address net + 1"
    and "prefixlen net = 32 \<Longrightarrow>
           hd (network_hosts net) = network_address net
           \<and> last (network_hosts net) = network_address net"
proof -
  have le: "prefixlen net \<le> 32" using assms by (simp add: valid_network_def)
  show "network_hosts net \<noteq> []"
  proof (cases "prefixlen net \<le> 30")
    case True
    from power_ge_4 [OF True] True show ?thesis
      by (simp add: network_hosts_def broadcast_address_def)
  next
    case False
    with le have "prefixlen net = 31 \<or> prefixlen net = 32" by arith
    then show ?thesis
      by (auto simp: network_hosts_def broadcast_address_def)
  qed
  show "hd (network_hosts net) = network_address net + 1
           \<and> last (network_hosts net) = network_address net + 2 ^ (32 - prefixlen net) - 2"
    if "prefixlen net \<le> 30"
    using power_ge_4 [OF that] that
    by (simp add: network_hosts_def broadcast_address_def)
  show "hd (network_hosts net) = network_address net
           \<and> last (network_hosts net) = network_address net + 1"
    if "prefixlen net = 31"
    using that by (simp add: network_hosts_def broadcast_address_def)
  show "hd (network_hosts net) = network_address net
           \<and> last (network_hosts net) = network_address net"
    if "prefixlen net = 32"
    using that by (simp add: network_hosts_def)
qed

lemma l3_addressing_network_Done:
  assumes "ipv4_network link = Some net"
    and "a_ipv4_address link = None \<or> z_ipv4_address link = None"
    and "network_hosts net \<noteq> []"
    and "l3_addressing vs link a z st = Done s"
  shows "addresses_of s k = addresses_of st k
            @ (if k = a then [\<lparr>address = \<lparr>ip = hd (network_hosts net),
                                            if_prefixlen = prefixlen net\<rparr>,
                                 secondary = None\<rparr>] else [])
            @ (if k = z then [\<lparr>address = \<lparr>ip = last (network_hosts net),
                                            if_prefixlen = prefixlen net\<rparr>,
                                 secondary = None\<rparr>] else [])"
proof -
  let ?A = "\<lparr>ip = hd (network_hosts net), if_prefixlen = prefixlen net\<rparr>"
  let ?Z = "\<lparr>ip = last (network_hosts net), if_prefixlen = prefixlen net\<rparr>"
  obtain f rest where hs: "network_hosts net = f # rest"
    using assms(3) by (cases "network_hosts net") auto
  have unfold: "l3_addressing vs link a z st =
          bind_outcome (bind_outcome (ensure_ipv4 a st) (ensure_ipv4 z))
            (\<lambda>st1. bind_outcome (port_add_ipv4_address vs ?A a st1)
                      (port_add_ipv4_address vs ?Z z))"
    using assms(1,2) hs
    by (cases "a_ipv4_address link"; cases "z_ipv4_address link")
       (simp_all add: l3_addressing_def Let_def)
  from assms(4) [unfolded unfold]
  obtain s1 s2 where e: "bind_outcome (ensure_ipv4 a st) (ensure_ipv4 z) = Done s1"
    and a: "port_add_ipv4_address vs ?A a s1 = Done s2"
    and z: "port_add_ipv4_address vs ?Z z s2 = Done s"
    by (auto dest!: bind_outcome_Done)
  have "addresses_of (final_state (bind_outcome (ensure_ipv4 a st) (ensure_ipv4 z))) k
          = addresses_of st k" for k
    by (simp add: frame_bind [where obs = "\<lambda>s. addresses_of s k"] addresses_ensure_ipv4)
  then have 1: "addresses_of s1 k = addresses_of st k" for k
    using e by simp
  show ?thesis
    by (simp add: port_add_Done [OF z] port_add_Done [OF a] 1)
qed

lemma addresses_set_vrf: "addresses_of (final_state (set_vrf v k st)) k' = addresses_of st k'"
  by (simp add: addresses_of_ipv4 ipv4_set_vrf)

lemma l3_link_prefix_network_Done:
  assumes "ipv4_network link = Some net"
    and "a_ipv4_address link = None \<or> z_ipv4_address link = None"
    and "network_hosts net \<noteq> []"
    and "l3_link_prefix vs link st = Done s"
  shows "addresses_of s k = addresses_of st k
            @ (if k = a_key link then [\<lparr>address = \<lparr>ip = hd (network_hosts net),
                                            if_prefixlen = prefixlen net\<rparr>,
                                 secondary = None\<rparr>] else [])
            @ (if k = z_key link then [\<lparr>address = \<lparr>ip = last (network_hosts net),
                                            if_prefixlen = prefixlen net\<rparr>,
                                 secondary = None\<rparr>] else [])"
proof -
  let ?st3 = "ensure_l3_port (z_key link) (ensure_l3_port (a_key link)
                (set_neighbor (z_key link) (a_host link) (a_interface link)
                  (set_neighbor (a_key link) (z_host link) (z_interface link) st)))"
  from assms(4) obtain s4 s5 where 4: "set_vrf (a_vrf link) (a_key link) ?st3 = Done s4"
    and 5: "set_vrf (z_vrf link) (z_key link) s4 = Done s5"
    and 6: "l3_addressing vs link (a_key link) (z_key link) s5 = Done s"
    by (auto simp: l3_link_prefix_def Let_def split: sum.splits dest!: bind_outcome_Done)
  have "addresses_of s5 k = addresses_of s4 k" for k
    using addresses_set_vrf [of "z_vrf link" "z_key link" s4 k] 5 by simp
  moreover have "addresses_of s4 k = addresses_of ?st3 k" for k
    using addresses_set_vrf [of "a_vrf link" "a_key link" ?st3 k] 4 by simp
  moreover have "addresses_of ?st3 k = addresses_of st k" for k
    by (simp add: addresses_of_ipv4)
  ultimately have "addresses_of s5 k = addresses_of st k" for k by simp
  then show ?thesis
    using l3_addressing_network_Done [OF assms(1-3) 6, of k] by simp
qed

lemma ospf_new_Inr: "InterfaceOspfConfig_new v = Inr c \<Longrightarrow> c = v"
  by (auto simp: InterfaceOspfConfig_new_def validate_process_and_area_def split: if_splits)

lemma load_ospf_template_allocated:
  assumes "load_ospf_template name v st = Done s"
  shows "allocated s name \<and> template_of s name = Some v
       \<and> (\<forall>n. allocated st n \<longrightarrow> allocated s n)"
  using assms
  by (auto simp: load_ospf_template_def allocated_def template_of_def
      split: sum.splits option.splits if_splits dest!: ospf_new_Inr)

lemma clone_Inr:
  assumes "InterfaceOspfConfig_clone r st = Inr (r', st')"
  shows "r' = next_ref st
       \<and> st' = st\<lparr>ospf_store := (ospf_store st)(next_ref st := ospf_store st r),
                  next_ref := Suc (next_ref st)\<rparr>"
  using assms
  by (auto simp: InterfaceOspfConfig_clone_def split: sum.splits dest!: ospf_new_Inr)

lemma ospf_ref_of_update_port:
  "ospf_ref_of (update_port k f st) k' =
     (if k' = k then (case port_of st k of None \<Rightarrow> None | Some p \<Rightarrow> ospf (f p))
      else ospf_ref_of st k')"
  by (simp add: ospf_ref_of_def port_of_update_port split: option.splits)

lemma ospf_ref_cong:
  "inv_interfaces st' = inv_interfaces st \<Longrightarrow> ospf_ref_of st' k = ospf_ref_of st k"
  by (simp add: ospf_ref_of_def port_of_def)

lemma registry_update_port [simp]: "registry_of (update_port k f st) = registry_of st"
  by (simp add: update_port_def)

lemma other_update_port [simp]:
  "inv_hosts (update_port k f st) = inv_hosts st"
  "templates (update_port k f st) = templates st"
  "ospf_store (update_port k f st) = ospf_store st"
  "next_ref (update_port k f st) = next_ref st"
  by (simp_all add: update_port_def)

lemma apply_ospf_Done:
  assumes "apply_ospf_template r k st = Done s"
  shows "ospf_ref_of s k' = (if k' = k then Some (next_ref st) else ospf_ref_of st k')
       \<and> ospf_store s = (ospf_store st)(next_ref st := ospf_store st r)
       \<and> next_ref s = Suc (next_ref st)
       \<and> templates s = templates st"
proof -
  let ?st' = "st\<lparr>ospf_store := (ospf_store st)(next_ref st := ospf_store st r),
                  next_ref := Suc (next_ref st)\<rparr>"
  obtain p where c: "InterfaceOspfConfig_clone r st = Inr (next_ref st, ?st')"
    and g: "get_port ?st' k ''ospf'' = Inr p"
    and s: "s = update_port k (\<lambda>p. p\<lparr>ospf := Some (next_ref st)\<rparr>) ?st'"
    using assms
    by (auto simp: apply_ospf_template_def split: sum.splits prod.splits dest!: clone_Inr)
  have i: "ospf_ref_of ?st' k' = ospf_ref_of st k'"
    by (rule ospf_ref_cong) simp
  show ?thesis
    using get_port_Inr [OF g]
    by (simp add: s ospf_ref_of_update_port i)
qed

lemma l3_ospf_Done:
  assumes "l3_ospf link a z st = Done s" and "row_ospf_template link = Some name"
  shows "\<exists>registry r. templates st ''ospf'' = Some registry \<and> registry name = Some r
       \<and> ospf_ref_of s z = Some (Suc (next_ref st))
       \<and> (a \<noteq> z \<longrightarrow> ospf_ref_of s a = Some (next_ref st))
       \<and> ospf_store s = (ospf_store st)
            (next_ref st := ospf_store st r,
             Suc (next_ref st) := ((ospf_store st)(next_ref st := ospf_store st r)) r)
       \<and> templates s = templates st
       \<and> next_ref s = Suc (Suc (next_ref st))"
proof -
  from assms obtain registry r s1 where t: "templates st ''ospf'' = Some registry"
    and n: "registry name = Some r"
    and 1: "apply_ospf_template r a st = Done s1"
    and 2: "apply_ospf_template r z s1 = Done s"
    by (auto simp: l3_ospf_def split: option.splits dest!: bind_outcome_Done)
  note a1 = apply_ospf_Done [OF 1]
  note a2 = apply_ospf_Done [OF 2]
  show ?thesis
    using t n a1 [of a] a1 [of z] a2 [of a] a2 [of z] by simp
qed

lemma ospf_ref_set_bfd: "ospf_ref_of (final_state (set_bfd vs n k st)) k' = ospf_ref_of st k'"
  by (auto simp: set_bfd_def ospf_ref_of_def port_of_update_port
      split: sum.splits dest!: get_port_Inr)

lemma registry_set_bfd: "registry_of (final_state (set_bfd vs n k st)) = registry_of st"
  by (simp add: set_bfd_def split: sum.splits)

lemma ospf_ref_l3_bfd: "ospf_ref_of (final_state (l3_bfd vs link a z st)) k' = ospf_ref_of st k'"
  by (simp add: l3_bfd_def ospf_ref_set_bfd frame_bind [where obs = "\<lambda>s. ospf_ref_of s k'"]
      split: option.splits)

lemma registry_l3_bfd: "registry_of (final_state (l3_bfd vs link a z st)) = registry_of st"
  by (simp add: l3_bfd_def registry_set_bfd frame_bind [where obs = registry_of]
      split: option.splits)

lemma l3_link_ospf_refs:
  assumes "l3_link_statements vs link st = Done s" and "row_ospf_template link = Some name"
    and "a_key link \<noteq> z_key link"
  shows "\<exists>registry r. templates st ''ospf'' = Some registry \<and> registry name = Some r
       \<and> ospf_ref_of s (a_key link) = Some (next_ref st)
       \<and> ospf_ref_of s (z_key link) = Some (Suc (next_ref st))
       \<and> ospf_store s = (ospf_store st)
            (next_ref st := ospf_store st r,
             Suc (next_ref st) := ((ospf_store st)(next_ref st := ospf_store st r)) r)
       \<and> templates s = templates st"
proof -
  obtain s1 s2 where p: "l3_link_prefix vs link st = Done s1"
    and o: "l3_ospf link (a_key link) (z_key link) s1 = Done s2"
    and b: "l3_bfd vs link (a_key link) (z_key link) s2 = Done s"
    using assms(1) unfolding l3_link_statements_split by (auto dest!: bind_outcome_Done)
  have r1: "registry_of s1 = registry_of st"
    using registry_l3_link_prefix [of vs link st] p by simp
  have r2: "registry_of s = registry_of s2"
    using registry_l3_bfd [of vs link "a_key link" "z_key link" s2] b by simp
  have f2: "ospf_ref_of s k = ospf_ref_of s2 k" for k
    using ospf_ref_l3_bfd [of vs link "a_key link" "z_key link" s2 k] b by simp
  from l3_ospf_Done [OF o assms(2)] assms(3) r1 r2 show ?thesis
    by (auto simp: registry_of_def f2)
qed

lemmas eval_ospf =
  two_routers_ospf_def load_ospf_template_def ensure_ospf_registry_def p2p_config_def
  InterfaceOspfConfig_new_def validate_process_and_area_def InterfaceOspfConfig_clone_def
  apply_ospf_template_def

lemma add_ipv4_address_Raised:
  assumes "add_ipv4_address p (Model m) self = Raised e self'"
  shows "port_addresses self' = port_addresses self @ [m]
       \<and> (\<exists>c. ipv4 self' = Some c \<and> InterfaceIPv4Container_validate c = Inl e)"
  using assms
  by (auto simp: add_ipv4_address_def port_addresses_def Let_def
      InterfaceIPv4Container_empty_def InterfaceIPv4Container_clone_def
      split: option.splits sum.splits)

lemma add_ipv4_address_Done_valid:
  assumes "add_ipv4_address p arg self = Done self'"
  shows "\<exists>c. ipv4 self' = Some c \<and> InterfaceIPv4Container_validate c = Inr c"
  using assms
  by (auto simp: add_ipv4_address_def Let_def InterfaceIPv4Container_clone_def
      InterfaceIPv4Container_validate_def
      split: option.splits sum.splits if_splits)

lemma load_bgp_router_creates_process:
  assumes "load_bgp_router h n st = Done s"
  shows "\<exists>host. get_host s h = Inr host \<and> bgp_process_of host \<noteq> None"
  using assms
  by (auto simp: load_bgp_router_def get_host_def bgp_process_of_def Let_def
      split: sum.splits option.splits)

lemma cdp_section_not_bool:
  assumes "v \<noteq> CellBool True" and "v \<noteq> CellBool False"
    and "inv_interfaces st a = Some i" and "discovery_protocols i = None"
  shows "cdp_section (Some (Some v)) a z st = Raised (AttributeError ''clone'') st"
  using assms by (simp add: cdp_section_def cdp_apply_def)

lemma l3_statements_network_addresses:
  assumes "valid_network net" and "ipv4_network link = Some net"
    and "a_ipv4_address link = None \<or> z_ipv4_address link = None"
    and "l3_link_statements vs link st = Done s"
  shows "network_hosts net \<noteq> []
       \<and> addresses_of s k = addresses_of st k
            @ (if k = a_key link then [\<lparr>address = \<lparr>ip = hd (network_hosts net),
                                            if_prefixlen = prefixlen net\<rparr>,
                                 secondary = None\<rparr>] else [])
            @ (if k = z_key link then [\<lparr>address = \<lparr>ip = last (network_hosts net),
                                            if_prefixlen = prefixlen net\<rparr>,
                                 secondary = None\<rparr>] else [])
       \<and> (prefixlen net \<le> 30 \<longrightarrow>
            hd (network_hosts net) = network_address net + 1
            \<and> last (network_hosts net) = network_address net + 2 ^ (32 - prefixlen net) - 2)
       \<and> (prefixlen net = 31 \<longrightarrow>
            hd (network_hosts net) = network_address net
            \<and> last (network_hosts net) = network_address net + 1)
       \<and> (prefixlen net = 32 \<longrightarrow>
            hd (network_hosts net) = network_address net
            \<and> last (network_hosts net) = network_address net)"
proof -
  note h = network_hosts_cases [OF assms(1)]
  obtain s1 where p: "l3_link_prefix vs link st = Done s1"
    and r: "bind_outcome (l3_ospf link (a_key link) (z_key link) s1)
              (l3_bfd vs link (a_key link) (z_key link)) = Done s"
    using assms(4) unfolding l3_link_statements_split by (auto dest: bind_outcome_Done)
  have "ipv4_of s k = ipv4_of s1 k" for k
    using frame_bind [where obs = "\<lambda>s. ipv4_of s k" and st = s1
        and m = "l3_ospf link (a_key link) (z_key link) s1"
        and f = "l3_bfd vs link (a_key link) (z_key link)"] r
    by (simp add: ipv4_l3_ospf ipv4_l3_bfd)
  then have "addresses_of s k = addresses_of s1 k"
    by (simp add: addresses_of_ipv4)
  then show ?thesis
    using l3_link_prefix_network_Done [OF assms(2,3) h(1) p, of k] h by simp
qed

lemma l3_statements_copies_isolated:
  assumes "l3_link_statements vs link st = Done s" and "row_ospf_template link = Some name"
    and "a_key link \<noteq> z_key link" and "allocated st name"
  shows "ospf_of s (a_key link) = template_of st name
       \<and> ospf_of s (z_key link) = template_of st name
       \<and> template_of s name = template_of st name
       \<and> ospf_of (mutate_ospf (a_key link) f s) (a_key link) = map_option f (ospf_of s (a_key link))
       \<and> ospf_of (mutate_ospf (a_key link) f s) (z_key link) = ospf_of s (z_key link)
       \<and> template_of (mutate_ospf (a_key link) f s) name = template_of s name
       \<and> ospf_of (mutate_ospf (z_key link) f s) (z_key link) = map_option f (ospf_of s (z_key link))
       \<and> ospf_of (mutate_ospf (z_key link) f s) (a_key link) = ospf_of s (a_key link)
       \<and> template_of (mutate_ospf (z_key link) f s) name = template_of s name"
proof -
  from l3_link_ospf_refs [OF assms(1-3)]
  obtain registry r where t: "templates st ''ospf'' = Some registry"
    and n: "registry name = Some r"
    and ra: "ospf_ref_of s (a_key link) = Some (next_ref st)"
    and rz: "ospf_ref_of s (z_key link) = Some (Suc (next_ref st))"
    and st: "ospf_store s = (ospf_store st)
            (next_ref st := ospf_store st r,
             Suc (next_ref st) := ((ospf_store st)(next_ref st := ospf_store st r)) r)"
    and ts: "templates s = templates st"
    by blast
  have lt: "r < next_ref st"
    using assms(4) t n by (simp add: allocated_def)
  have ma: "ospf_ref_of (mutate_ospf k f s) k' = ospf_ref_of s k'" for k k'
    by (simp add: mutate_ospf_def ospf_ref_of_def port_of_def split: option.splits)
  have mt: "templates (mutate_ospf k f s) = templates s" for k
    by (simp add: mutate_ospf_def split: option.splits)
  show ?thesis
    using lt
    by (simp add: ospf_of_def template_of_def ra rz st ts t n ma mt)
       (simp add: mutate_ospf_def ra rz st)
qed

lemma l3_statements_unknown_template:
  assumes "row_ospf_template link = Some name" and "\<not> registered st name"
  shows "\<not> is_Done (l3_link_statements vs link st)
         \<and> (\<forall>s. l3_link_statements vs (link\<lparr>row_ospf_template := None, row_bfd_template := None\<rparr>) st = Done s
              \<longrightarrow> l3_link_statements vs link st =
                    Raised (if templates st ''ospf'' = None then KeyError ''ospf''
                            else AttributeError ''clone'') s)"
proof (cases "l3_link_prefix vs link st")
  case (Raised e s)
  then show ?thesis
    by (simp add: l3_link_statements_split l3_link_prefix_ignores_templates)
next
  case (Done s)
  have eq: "registry_of s = registry_of st"
    using registry_l3_link_prefix [of vs link st] Done by simp
  have r: "\<not> registered s name"
    using assms(2) registered_cong [OF eq, of name] by simp
  have t: "templates s = templates st"
    using eq by (simp add: registry_of_def)
  have o: "l3_ospf link (a_key link) (z_key link) s =
             Raised (if templates st ''ospf'' = None then KeyError ''ospf''
                     else AttributeError ''clone'') s"
    using l3_ospf_unregistered [OF assms(1) r] t by simp
  show ?thesis
    using Done o
    by (simp add: l3_link_statements_split l3_link_prefix_ignores_templates l3_ospf_def l3_bfd_def)
qed

lemma l3_statements_lone_address:
  assumes "(a_ipv4_address link = None) \<noteq> (z_ipv4_address link = None)"
    and "ipv4_network link = None"
  shows "ipv4_of (final_state (l3_link_statements vs link st)) k = ipv4_of st k
       \<and> addresses_of (final_state (l3_link_statements vs link st)) k = addresses_of st k
       \<and> l3_addressing vs link a z s = Done s
       \<and> l3_link_statements vs link st
           = l3_link_statements vs (link\<lparr>a_ipv4_address := None, z_ipv4_address := None\<rparr>) st"
proof -
  have i: "ipv4_of (final_state (l3_link_statements vs link st)) k = ipv4_of st k" for k
    unfolding l3_link_statements_split
    by (rule frame_bind [where obs = "\<lambda>s. ipv4_of s k"])
       (simp_all add: ipv4_l3_link_prefix_lone [OF assms] ipv4_l3_ospf ipv4_l3_bfd
          frame_bind [where obs = "\<lambda>s. ipv4_of s k"])
  have a: "addresses_of (final_state (l3_link_statements vs link st)) k = addresses_of st k"
    by (simp add: addresses_of_ipv4 i)
  have e: "l3_link_statements vs link st
           = l3_link_statements vs (link\<lparr>a_ipv4_address := None, z_ipv4_address := None\<rparr>) st"
    by (simp add: l3_link_statements_split l3_link_prefix_lone [OF assms])
  show ?thesis
    using i [of k] a e l3_addressing_lone [OF assms, of vs a z s] by blast
qed

lemma cdp_bool_flag_first_write_wins:
  assumes "link_resolves st link" and "row_cdp_enabled link = Some (Some (CellBool b))"
  shows "discovery_of (final_state (load_physical_link d link st)) k =
           (if (k = a_key link \<or> k = z_key link) \<and> discovery_of st k = None
            then Some \<lparr>cdp = Some \<lparr>cdp_enabled = Some b\<rparr>\<rparr> else discovery_of st k)"
proof -
  let ?st2 = "set_neighbor (z_key link) (a_host link) (a_interface link)
                (set_neighbor (a_key link) (z_host link) (z_interface link) st)"
  have "inv_interfaces ?st2 (a_key link) \<noteq> None" "inv_interfaces ?st2 (z_key link) \<noteq> None"
    using assms(1) by (simp_all add: link_resolves_def)
  from cdp_section_bool [OF this, of b]
  obtain s3 where c: "cdp_section (Some (Some (CellBool b))) (a_key link) (z_key link) ?st2 = Done s3"
    and d: "\<And>k'. discovery_of s3 k' =
                  (if (k' = a_key link \<or> k' = z_key link) \<and> discovery_of ?st2 k' = None
                   then Some \<lparr>cdp = Some \<lparr>cdp_enabled = Some b\<rparr>\<rparr> else discovery_of ?st2 k')"
    by blast
  have "discovery_of (final_state (load_physical_link d link st)) k = discovery_of s3 k"
    using assms c by (simp add: load_physical_link_split discovery_lag_section)
  then show ?thesis by (simp add: d)
qed

lemma discovery_cdp_apply_set:
  assumes "discovery_of st k' \<noteq> None"
  shows "discovery_of (final_state (cdp_apply c k st)) k' = discovery_of st k'"
  using assms
  by (auto simp: cdp_apply_def discovery_of_def split: option.splits)

lemma discovery_cdp_section_set:
  assumes "discovery_of st k' \<noteq> None"
  shows "discovery_of (final_state (cdp_section c a z st)) k' = discovery_of st k'"
proof (cases c)
  case None
  then show ?thesis by (simp add: cdp_section_def)
next
  case (Some c')
  show ?thesis
  proof (cases c')
    case None
    with Some show ?thesis by (simp add: cdp_section_def)
  next
    case (Some v)
    let ?cfg = "if v = CellBool True then Some \<lparr>cdp_enabled = Some True\<rparr>
                else if v = CellBool False then Some \<lparr>cdp_enabled = Some False\<rparr>
                else None"
    have e: "cdp_section c a z st = bind_outcome (cdp_apply ?cfg a st) (cdp_apply ?cfg z)"
      using Some \<open>c = Some c'\<close> by (simp add: cdp_section_def Let_def)
    show ?thesis
    proof (cases "cdp_apply ?cfg a st")
      case (Done s1)
      have "discovery_of s1 k' = discovery_of st k'"
        using discovery_cdp_apply_set [OF assms, of ?cfg a] Done by simp
      then have "discovery_of (final_state (cdp_apply ?cfg z s1)) k' = discovery_of st k'"
        using discovery_cdp_apply_set [of s1 k' ?cfg z] assms by simp
      then show ?thesis unfolding e using Done by simp
    next
      case (Raised x s1)
      then show ?thesis
        unfolding e using discovery_cdp_apply_set [OF assms, of ?cfg a] by simp
    qed
  qed
qed

lemma discovery_physical_link_set:
  assumes "discovery_of st k \<noteq> None"
  shows "discovery_of (final_state (load_physical_link d link st)) k = discovery_of st k"
proof (cases "link_resolves st link")
  case False
  then show ?thesis by (simp add: load_physical_link_split)
next
  case True
  let ?st2 = "set_neighbor (z_key link) (a_host link) (a_interface link)
                (set_neighbor (a_key link) (z_host link) (z_interface link) st)"
  have "discovery_of ?st2 k \<noteq> None" using assms by simp
  from discovery_cdp_section_set [OF this, of "row_cdp_enabled link" "a_key link" "z_key link"]
  have c: "discovery_of (final_state
              (cdp_section (row_cdp_enabled link) (a_key link) (z_key link) ?st2)) k
           = discovery_of st k"
    by simp
  show ?thesis
    using True c
    by (simp add: load_physical_link_split
        frame_bind [where obs = "\<lambda>s. discovery_of s k"] discovery_lag_section)
qed

lemma load_l3_link_decode:
  "load_l3_link vs row st =
     (if L3Link_accepts vs (L3Link.truncate row) then l3_link_statements vs row st
      else Raised (ValidationError [''L3Link'']) st)"
  by (simp add: load_l3_link_def l3_link_statements_def row_to_model_L3Link_def)

lemma load_l3_link_Done:
  "load_l3_link vs row st = Done s \<Longrightarrow> l3_link_statements vs row st = Done s"
  by (simp add: load_l3_link_decode split: if_splits)

lemma truncate_ignores_templates [simp]:
  "L3Link.truncate (link\<lparr>row_ospf_template := t, row_bfd_template := b\<rparr>) = L3Link.truncate link"
  by (simp add: L3Link.truncate_def)

lemma length_py_strip: "length (py_strip v) \<le> length v"
proof -
  have "length (dropWhile py_isspace (rev (dropWhile py_isspace v)))
          \<le> length (rev (dropWhile py_isspace v))"
    by (rule length_dropWhile_le)
  also have "\<dots> \<le> length v"
    by (simp add: length_dropWhile_le)
  finally show ?thesis by (simp add: py_strip_def)
qed

lemma py_strip_id:
  assumes "v \<noteq> []" and "\<not> py_isspace (hd v)" and "\<not> py_isspace (last v)"
  shows "py_strip v = v"
proof -
  have 1: "dropWhile py_isspace v = v"
    using assms(1,2) by (cases v) simp_all
  have "rev v \<noteq> []" and "\<not> py_isspace (hd (rev v))"
    using assms(1,3) by (simp_all add: hd_rev)
  then have 2: "dropWhile py_isspace (rev v) = rev v"
    by (cases "rev v") simp_all
  show ?thesis by (simp add: py_strip_def 1 2)
qed

subsection \<open>The claims\<close>

text \<open>
  C1. Evaluation of \<open>add_ipv4_address\<close> on a port that holds the single primary address
  10.0.0.1/24, adding 10.0.0.2/24 as a second primary in the same network: the call
  raises the validation error of both root validators, and the port is left holding
  both addresses, a container that its own validation rejects. (In general, by
  \<open>add_ipv4_address_Raised\<close>, every call that raises on an address model leaves the
  address appended.)
\<close>

theorem add_ipv4_address_conflict_keeps_address:
  "add_ipv4_address (\<lambda>a. True)
     (Model \<lparr>address = \<lparr>ip = 167772162, if_prefixlen = 24\<rparr>, secondary = None\<rparr>)
     \<lparr>ipv4 = Some \<lparr>addresses = Some [\<lparr>address = \<lparr>ip = 167772161, if_prefixlen = 24\<rparr>,
                                       secondary = None\<rparr>],
                    unnumbered = None, dhcp_client = None\<rparr>,
      vrf = None, ospf = None, port_bfd = None\<rparr>
   = Raised (ValidationError [''validate_non_overlapping'', ''validate_single_primary''])
       \<lparr>ipv4 = Some \<lparr>addresses = Some [\<lparr>address = \<lparr>ip = 167772161, if_prefixlen = 24\<rparr>,
                                         secondary = None\<rparr>,
                                        \<lparr>address = \<lparr>ip = 167772162, if_prefixlen = 24\<rparr>,
                                         secondary = None\<rparr>],
                      unnumbered = None, dhcp_client = None\<rparr>,
        vrf = None, ospf = None, port_bfd = None\<rparr>
   \<and> InterfaceIPv4Container_validate
       \<lparr>addresses = Some [\<lparr>address = \<lparr>ip = 167772161, if_prefixlen = 24\<rparr>, secondary = None\<rparr>,
                          \<lparr>address = \<lparr>ip = 167772162, if_prefixlen = 24\<rparr>, secondary = None\<rparr>],
        unnumbered = None, dhcp_client = None\<rparr>
     = Inl (ValidationError [''validate_non_overlapping'', ''validate_single_primary''])
   \<and> InterfaceIPv4Container_validate
       \<lparr>addresses = Some [\<lparr>address = \<lparr>ip = 167772161, if_prefixlen = 24\<rparr>, secondary = None\<rparr>],
        unnumbered = None, dhcp_client = None\<rparr>
     = Inr \<lparr>addresses = Some [\<lparr>address = \<lparr>ip = 167772161, if_prefixlen = 24\<rparr>,
                                secondary = None\<rparr>],
            unnumbered = None, dhcp_client = None\<rparr>"
  by (simp add: add_ipv4_address_def InterfaceIPv4Container_clone_def
      InterfaceIPv4Container_validate_def validate_non_overlapping_def
      validate_single_primary_def overlaps_other_def failures_def in_network_def
      interface_network_def Let_def)

text \<open>
  C3. Every successfully constructed OSPF interface configuration has \<open>process_id\<close> and
  \<open>area\<close> both present or both absent, and a construction with exactly one of the two
  present fails.
\<close>

theorem ospf_process_and_area_coupled:
  "(InterfaceOspfConfig_new values = Inr c \<longrightarrow>
      c = values \<and> ((process_id c = None) = (area c = None)))
   \<and> ((process_id values = None) \<noteq> (area values = None) \<longrightarrow>
      InterfaceOspfConfig_new values = Inl (ValidationError [''validate_process_and_area'']))"
  by (auto simp: InterfaceOspfConfig_new_def validate_process_and_area_def split: if_splits)

theorem ospf_process_and_area_coupled_witness:
  "InterfaceOspfConfig_new
     \<lparr>process_id = Some 1, area = Some 0, network_type = None, cost = None, priority = None,
      authentication = None, timers = None, bfd = None\<rparr>
   = Inr \<lparr>process_id = Some 1, area = Some 0, network_type = None, cost = None, priority = None,
      authentication = None, timers = None, bfd = None\<rparr>
   \<and> InterfaceOspfConfig_new
     \<lparr>process_id = Some 1, area = None, network_type = None, cost = None, priority = None,
      authentication = None, timers = None, bfd = None\<rparr>
   = Inl (ValidationError [''validate_process_and_area''])
   \<and> InterfaceOspfConfig_new
     \<lparr>process_id = None, area = Some 0, network_type = None, cost = None, priority = None,
      authentication = None, timers = None, bfd = None\<rparr>
   = Inl (ValidationError [''validate_process_and_area''])"
  using ospf_process_and_area_coupled
    [of "\<lparr>process_id = Some 1, area = Some 0, network_type = None, cost = None, priority = None,
      authentication = None, timers = None, bfd = None\<rparr>"
        "\<lparr>process_id = Some 1, area = Some 0, network_type = None, cost = None, priority = None,
      authentication = None, timers = None, bfd = None\<rparr>"]
    ospf_process_and_area_coupled
    [of "\<lparr>process_id = Some 1, area = None, network_type = None, cost = None, priority = None,
      authentication = None, timers = None, bfd = None\<rparr>" undefined]
    ospf_process_and_area_coupled
    [of "\<lparr>process_id = None, area = Some 0, network_type = None, cost = None, priority = None,
      authentication = None, timers = None, bfd = None\<rparr>" undefined]
  by (simp add: InterfaceOspfConfig_new_def validate_process_and_area_def)

text \<open>
  C9. Constructing a key from a string never fails. The value stored is the first 8
  characters of the string (the string itself when it has at most 8), and, when the
  inherited \<open>Config\<close> strips whitespace, that text without its leading and trailing
  whitespace; it has at most 8 characters. A text that neither begins nor ends with
  whitespace is stored as it is. With stripping, the value stored for \<open>"  abcdefgh"\<close> is
  \<open>"abcdef"\<close>, not its first 8 characters, and the value stored for \<open>"abcd    "\<close>, of 8
  characters, is \<open>"abcd"\<close>: the example after the witness.
\<close>

theorem key_ospf_truncates_then_strips:
  "KeyOspf_new strip v
     = Inr \<lparr>key_value = (if strip then py_strip (take 8 v) else take 8 v)\<rparr>
   \<and> length (if strip then py_strip (take 8 v) else take 8 v) \<le> 8
   \<and> (length v \<le> 8 \<longrightarrow> take 8 v = v)
   \<and> (v \<noteq> [] \<and> \<not> py_isspace (hd (take 8 v)) \<and> \<not> py_isspace (last (take 8 v))
        \<longrightarrow> py_strip (take 8 v) = take 8 v)"
proof -
  have t: "truncate_value v = take 8 v"
    by (simp add: truncate_value_def)
  have l: "length (py_strip (take 8 v)) \<le> 8"
    using length_py_strip [of "take 8 v"] by simp
  have i: "py_strip (take 8 v) = take 8 v"
    if "v \<noteq> []" "\<not> py_isspace (hd (take 8 v))" "\<not> py_isspace (last (take 8 v))"
    using that by (intro py_strip_id) simp_all
  show ?thesis
    using l i by (simp add: KeyOspf_new_def t Let_def)
qed

theorem key_ospf_truncates_then_strips_witness:
  "KeyOspf_new True ''abcdefghij'' = Inr \<lparr>key_value = ''abcdefgh''\<rparr>
   \<and> KeyOspf_new False ''abcdefghij'' = Inr \<lparr>key_value = ''abcdefgh''\<rparr>
   \<and> length ''secret'' \<le> 8
   \<and> KeyOspf_new True ''secret'' = Inr \<lparr>key_value = ''secret''\<rparr>"
  using key_ospf_truncates_then_strips [of True "''abcdefghij''"]
    key_ospf_truncates_then_strips [of False "''abcdefghij''"]
    key_ospf_truncates_then_strips [of True "''secret''"]
  by (simp add: py_isspace_def)

theorem key_ospf_whitespace_counterexample:
  "KeyOspf_new True ''  abcdefgh'' = Inr \<lparr>key_value = ''abcdef''\<rparr>
   \<and> take 8 ''  abcdefgh'' = ''  abcdef''
   \<and> KeyOspf_new True ''abcd    '' = Inr \<lparr>key_value = ''abcd''\<rparr>
   \<and> length ''abcd    '' = 8"
  by (simp add: KeyOspf_new_def truncate_value_def py_strip_def py_isspace_def)

text \<open>
  C7. A row of \<open>bgp_neighbors\<close> whose host has no BGP process (no configuration, no
  routing configuration, or no BGP process in it) fails: the attribute chain
  \<open>host.config.routing.bgp.neighbors\<close> raises at the first absent object, before
  anything is written. This failure is the \<open>MissingBgpProcess\<close> of the specification.
\<close>

theorem bgp_neighbor_requires_process:
  assumes "get_host st (row_host row) = Inr host" and "bgp_process_of host = None"
  shows "load_bgp_neighbor groups row st
           = Raised (AttributeError
                (if config host = None then ''routing''
                 else if Option.bind (config host) routing = None then ''bgp''
                 else ''neighbors'')) st"
  using assms
  by (auto simp: load_bgp_neighbor_def bgp_process_of_def split: option.splits)

theorem bgp_neighbor_requires_process_witness:
  "load_bgp_neighbor [\<lparr>pg_name = ''RR-CLIENT''\<rparr>]
     \<lparr>row_host = ''R1'',
      row_neighbor = \<lparr>nbr_address = ''192.0.2.1'', peer_group = Some ''RR-CLIENT''\<rparr>\<rparr>
     two_routers
   = Raised (AttributeError ''routing'') two_routers"
proof -
  have h: "get_host two_routers
             (row_host \<lparr>row_host = ''R1'',
                row_neighbor = \<lparr>nbr_address = ''192.0.2.1'', peer_group = Some ''RR-CLIENT''\<rparr>\<rparr>)
           = Inr \<lparr>config = None\<rparr>"
    by (simp add: get_host_def two_routers_def)
  have p: "bgp_process_of \<lparr>config = None\<rparr> = None"
    by (simp add: bgp_process_of_def)
  show ?thesis
    using bgp_neighbor_requires_process [OF h p, of "[\<lparr>pg_name = ''RR-CLIENT''\<rparr>]"]
    by simp
qed

text \<open>
  C6. A row of \<open>l3_links\<close> that names an OSPF template which is not registered is
  never processed successfully; and when the rest of the row is in order (the row
  without its template references is processed successfully, ending in \<open>s\<close>), the
  failure is that of the template lookup, raised in state \<open>s\<close>: \<open>KeyError\<close> when there
  is no OSPF registry, \<open>AttributeError\<close> from \<open>.clone()\<close> on the \<open>None\<close> that
  \<open>.get\<close> returned otherwise. This failure is the \<open>UnknownTemplate\<close> of the
  specification.
\<close>

theorem l3_link_unknown_template_fails:
  assumes "row_ospf_template link = Some name" and "\<not> registered st name"
  shows "\<not> is_Done (load_l3_link vs link st)
         \<and> (\<forall>s. load_l3_link vs (link\<lparr>row_ospf_template := None, row_bfd_template := None\<rparr>) st = Done s
              \<longrightarrow> load_l3_link vs link st =
                    Raised (if templates st ''ospf'' = None then KeyError ''ospf''
                            else AttributeError ''clone'') s)"
proof (cases "L3Link_accepts vs (L3Link.truncate link)")
  case True
  then show ?thesis
    using l3_statements_unknown_template [OF assms, of vs]
    by (simp add: load_l3_link_decode)
next
  case False
  then show ?thesis
    by (simp add: load_l3_link_decode)
qed

theorem l3_link_unknown_template_fails_witness:
  "row_ospf_template unknown_template_row = Some ''BACKBONE''
   \<and> \<not> registered two_routers_ospf ''BACKBONE''
   \<and> is_Done (load_l3_link accept_all
        (unknown_template_row\<lparr>row_ospf_template := None, row_bfd_template := None\<rparr>)
        two_routers_ospf)
   \<and> \<not> is_Done (load_l3_link accept_all unknown_template_row two_routers_ospf)
   \<and> load_l3_link accept_all unknown_template_row two_routers_ospf
       = Raised (AttributeError ''clone'')
           (final_state (load_l3_link accept_all
              (unknown_template_row\<lparr>row_ospf_template := None, row_bfd_template := None\<rparr>)
              two_routers_ospf))"
proof -
  have h: "row_ospf_template unknown_template_row = Some ''BACKBONE''"
    by (simp add: unknown_template_row_def)
  have r: "\<not> registered two_routers_ospf ''BACKBONE''"
    by (simp add: registered_def eval_ospf two_routers_def)
  have d: "is_Done (load_l3_link accept_all
        (unknown_template_row\<lparr>row_ospf_template := None, row_bfd_template := None\<rparr>)
        two_routers_ospf)"
    by (simp add: eval_l3 eval_ospf unknown_template_row_def)
  have t: "templates two_routers_ospf ''ospf'' \<noteq> None"
    by (simp add: eval_ospf two_routers_def)
  show ?thesis
    using h r d t l3_link_unknown_template_fails [OF h r, of accept_all]
      is_Done_final [OF d]
    by simp
qed

text \<open>
  C2. After a row of \<open>l3_links\<close> has been processed successfully, each end interface
  has the other end as its neighbor. The same holds after a row of \<open>physical_links\<close>,
  unless its LAG section has written a Port-channel neighbor onto an end interface
  (\<open>lag_rewrites_end\<close>). The example after the witness is such a row: its a-side
  interface is \<open>Port-channel1\<close> with LAG group 1, and it ends with the neighbor
  \<open>(R2, Port-channel1)\<close> where the row's z-side interface is \<open>Gi0/0\<close>.
\<close>

theorem link_neighbors_symmetric:
  "(load_l3_link vs l3 st = Done s \<longrightarrow>
      neighbor_of s (a_key l3) = Some \<lparr>nb_host = z_host l3, nb_interface = z_interface l3\<rparr>
      \<and> neighbor_of s (z_key l3) = Some \<lparr>nb_host = a_host l3, nb_interface = a_interface l3\<rparr>)
   \<and> (load_physical_link d ph st = Done s' \<and> \<not> lag_rewrites_end ph \<longrightarrow>
      neighbor_of s' (a_key ph) = Some \<lparr>nb_host = z_host ph, nb_interface = z_interface ph\<rparr>
      \<and> neighbor_of s' (z_key ph) = Some \<lparr>nb_host = a_host ph, nb_interface = a_interface ph\<rparr>)"
  using load_l3_link_Done [of vs l3 st s] l3_link_neighbors [of vs l3 st s]
    physical_link_neighbors [of d ph st s'] by blast

theorem link_neighbors_symmetric_witness:
  "is_Done (load_l3_link accept_all routed_row two_routers)
   \<and> neighbor_of (final_state (load_l3_link accept_all routed_row two_routers)) (''R1'', ''Gi0/0'')
       = Some \<lparr>nb_host = ''R2'', nb_interface = ''Gi0/0''\<rparr>
   \<and> neighbor_of (final_state (load_l3_link accept_all routed_row two_routers)) (''R2'', ''Gi0/0'')
       = Some \<lparr>nb_host = ''R1'', nb_interface = ''Gi0/0''\<rparr>
   \<and> is_Done (load_physical_link ''active'' lag_member_row two_routers)
   \<and> \<not> lag_rewrites_end lag_member_row
   \<and> neighbor_of (final_state (load_physical_link ''active'' lag_member_row two_routers))
        (''R1'', ''Gi0/0'')
       = Some \<lparr>nb_host = ''R2'', nb_interface = ''Gi0/0''\<rparr>
   \<and> neighbor_of (final_state (load_physical_link ''active'' lag_member_row two_routers))
        (''R2'', ''Gi0/0'')
       = Some \<lparr>nb_host = ''R1'', nb_interface = ''Gi0/0''\<rparr>"
proof -
  have d1: "is_Done (load_l3_link accept_all routed_row two_routers)"
    by (simp add: eval_l3 routed_row_def)
  have d2: "is_Done (load_physical_link ''active'' lag_member_row two_routers)"
    by (simp add: eval_physical lag_member_row_def)
  have n: "\<not> lag_rewrites_end lag_member_row"
    by (simp add: lag_rewrites_end_def lag_member_row_def a_key_def z_key_def)
  show ?thesis
    using d1 d2 n
      link_neighbors_symmetric [of accept_all routed_row two_routers
        "final_state (load_l3_link accept_all routed_row two_routers)"
        "''active''" lag_member_row
        "final_state (load_physical_link ''active'' lag_member_row two_routers)"]
      is_Done_final [OF d1] is_Done_final [OF d2]
    by (simp add: a_key_def z_key_def routed_row_def lag_member_row_def)
qed

theorem physical_link_port_channel_end_counterexample:
  "is_Done (load_physical_link ''active'' port_channel_end_row two_routers)
   \<and> neighbor_of (final_state (load_physical_link ''active'' port_channel_end_row two_routers))
        (a_key port_channel_end_row)
      = Some \<lparr>nb_host = ''R2'', nb_interface = ''Port-channel1''\<rparr>
   \<and> neighbor_of (final_state (load_physical_link ''active'' port_channel_end_row two_routers))
        (a_key port_channel_end_row)
      \<noteq> Some \<lparr>nb_host = z_host port_channel_end_row,
               nb_interface = z_interface port_channel_end_row\<rparr>"
  by (simp add: eval_physical port_channel_end_row_def neighbor_of_def a_key_def)

text \<open>
  C8. For a row of \<open>physical_links\<close> whose hosts and interfaces are in the inventory:
  when its \<open>cdp_enabled\<close> cell holds the boolean \<open>b\<close>, then at the end of the loop body
  (normal, or by a failure of the LAG section) an end interface whose discovery protocols
  were unset has CDP set to \<open>b\<close>, and every other interface has its discovery protocols
  as before; and whatever the cell holds, an interface whose discovery protocols were set
  has them as before. The statement is not made for a cell that is present, not null and
  not a boolean: in the example after the witness the cell holds the integer 1, the loop
  body raises at \<open>cdp_config.clone()\<close>, and the unset end interfaces stay unset.
\<close>

theorem cdp_first_write_wins:
  assumes "link_resolves st link"
  shows "(row_cdp_enabled link = Some (Some (CellBool b)) \<longrightarrow>
            discovery_of (final_state (load_physical_link d link st)) k =
              (if (k = a_key link \<or> k = z_key link) \<and> discovery_of st k = None
               then Some \<lparr>cdp = Some \<lparr>cdp_enabled = Some b\<rparr>\<rparr> else discovery_of st k))
       \<and> (discovery_of st k \<noteq> None \<longrightarrow>
            discovery_of (final_state (load_physical_link d link st)) k = discovery_of st k)"
  using cdp_bool_flag_first_write_wins [OF assms, of b d k]
    discovery_physical_link_set [of st k d link]
  by blast

theorem cdp_first_write_wins_witness:
  "link_resolves two_routers_cdp lag_member_row
   \<and> row_cdp_enabled lag_member_row = Some (Some (CellBool True))
   \<and> discovery_of two_routers_cdp (''R1'', ''Gi0/0'') = None
   \<and> discovery_of two_routers_cdp (''R2'', ''Gi0/0'') \<noteq> None
   \<and> discovery_of (final_state (load_physical_link ''active'' lag_member_row two_routers_cdp))
        (''R1'', ''Gi0/0'')
       = Some \<lparr>cdp = Some \<lparr>cdp_enabled = Some True\<rparr>\<rparr>
   \<and> discovery_of (final_state (load_physical_link ''active'' lag_member_row two_routers_cdp))
        (''R2'', ''Gi0/0'')
       = Some \<lparr>cdp = Some \<lparr>cdp_enabled = Some False\<rparr>\<rparr>"
proof -
  have r: "link_resolves two_routers_cdp lag_member_row"
    by (simp add: link_resolves_def two_routers_cdp_def two_routers_def lag_member_row_def
        a_key_def z_key_def)
  have c: "row_cdp_enabled lag_member_row = Some (Some (CellBool True))"
    by (simp add: lag_member_row_def)
  have s: "discovery_of two_routers_cdp (''R2'', ''Gi0/0'')
             = Some \<lparr>cdp = Some \<lparr>cdp_enabled = Some False\<rparr>\<rparr>"
    by (simp add: discovery_of_def two_routers_cdp_def two_routers_def plain_interface_def)
  show ?thesis
    using r c s
      cdp_first_write_wins [OF r, where b = True and d = "''active''" and k = "(''R1'', ''Gi0/0'')",
        THEN conjunct1]
      cdp_first_write_wins [OF r, where b = True and d = "''active''" and k = "(''R2'', ''Gi0/0'')",
        THEN conjunct2]
    by (simp add: discovery_of_def two_routers_cdp_def two_routers_def plain_interface_def
        a_key_def z_key_def lag_member_row_def)
qed

theorem cdp_integer_flag_counterexample:
  "link_resolves two_routers integer_flag_row
   \<and> row_cdp_enabled integer_flag_row = Some (Some (CellInt 1))
   \<and> discovery_of two_routers (''R1'', ''Gi0/0'') = None
   \<and> raised (load_physical_link ''active'' integer_flag_row two_routers)
       = Some (AttributeError ''clone'')
   \<and> discovery_of (final_state (load_physical_link ''active'' integer_flag_row two_routers))
        (''R1'', ''Gi0/0'') = None
   \<and> discovery_of (final_state (load_physical_link ''active'' integer_flag_row two_routers))
        (''R2'', ''Gi0/0'') = None"
  by (simp add: eval_physical integer_flag_row_def discovery_of_def link_resolves_def
      a_key_def z_key_def)

text \<open>
  C10. For a row of \<open>l3_links\<close> that gives the address of exactly one end and no
  network: when the loop body ends, every interface has the IPv4 container and the
  addresses it had before (none is created, none is assigned); the addressing statements
  return normally without changing the state, and the statements after the decoding run
  exactly as for the same row without the address. Whether the row is processed at all
  is decided by the first statement, the decoding: when the link model rejects the row,
  the loop body raises its \<open>ValidationError\<close> before anything is written. A link model
  that requires the two end addresses together rejects every such row: the example after
  the witness.
\<close>

theorem l3_link_lone_address:
  assumes "(a_ipv4_address link = None) \<noteq> (z_ipv4_address link = None)"
    and "ipv4_network link = None"
  shows "ipv4_of (final_state (load_l3_link vs link st)) k = ipv4_of st k
       \<and> addresses_of (final_state (load_l3_link vs link st)) k = addresses_of st k
       \<and> l3_addressing vs link a z s = Done s
       \<and> l3_link_statements vs link st
           = l3_link_statements vs (link\<lparr>a_ipv4_address := None, z_ipv4_address := None\<rparr>) st
       \<and> load_l3_link vs link st
           = (if L3Link_accepts vs (L3Link.truncate link) then l3_link_statements vs link st
              else Raised (ValidationError [''L3Link'']) st)"
proof -
  note b = l3_statements_lone_address [OF assms, of vs st k a z s]
  show ?thesis
  proof (cases "L3Link_accepts vs (L3Link.truncate link)")
    case True
    then have e: "load_l3_link vs link st = l3_link_statements vs link st"
      by (simp add: load_l3_link_decode)
    have "l3_link_statements vs link st
            = (if L3Link_accepts vs (L3Link.truncate link) then l3_link_statements vs link st
               else Raised (ValidationError [''L3Link'']) st)"
      using True by simp
    with b show ?thesis unfolding e by blast
  next
    case False
    then have e: "load_l3_link vs link st = Raised (ValidationError [''L3Link'']) st"
      by (simp add: load_l3_link_decode)
    have "Raised (ValidationError [''L3Link'']) st
            = (if L3Link_accepts vs (L3Link.truncate link) then l3_link_statements vs link st
               else Raised (ValidationError [''L3Link'']) st)"
      using False by simp
    moreover have "ipv4_of (final_state (Raised (ValidationError [''L3Link'']) st)) k = ipv4_of st k"
      and "addresses_of (final_state (Raised (ValidationError [''L3Link'']) st)) k
             = addresses_of st k"
      by simp_all
    ultimately show ?thesis using b unfolding e by blast
  qed
qed

theorem l3_link_lone_address_witness:
  "(a_ipv4_address lone_address_row = None) \<noteq> (z_ipv4_address lone_address_row = None)
   \<and> ipv4_network lone_address_row = None
   \<and> \<not> L3Link_accepts paired_addresses (L3Link.truncate lone_address_row)
   \<and> load_l3_link paired_addresses lone_address_row two_routers
       = Raised (ValidationError [''L3Link'']) two_routers
   \<and> ipv4_of (final_state (load_l3_link paired_addresses lone_address_row two_routers))
        (''R1'', ''Gi0/0'') = None
   \<and> addresses_of (final_state (load_l3_link paired_addresses lone_address_row two_routers))
        (''R1'', ''Gi0/0'') = []
   \<and> is_Done (l3_link_statements paired_addresses lone_address_row two_routers)
   \<and> ipv4_of (final_state (l3_link_statements paired_addresses lone_address_row two_routers))
        (''R1'', ''Gi0/0'') = None"
proof -
  have h1: "(a_ipv4_address lone_address_row = None) \<noteq> (z_ipv4_address lone_address_row = None)"
    by (simp add: lone_address_row_def)
  have h2: "ipv4_network lone_address_row = None"
    by (simp add: lone_address_row_def)
  have n: "\<not> L3Link_accepts paired_addresses (L3Link.truncate lone_address_row)"
    by (simp add: paired_addresses_def L3Link.truncate_def lone_address_row_def)
  have d: "is_Done (l3_link_statements paired_addresses lone_address_row two_routers)"
    by (simp add: eval_l3 lone_address_row_def)
  have i: "ipv4_of (final_state (l3_link_statements paired_addresses lone_address_row two_routers))
        (''R1'', ''Gi0/0'') = None"
    by (simp add: eval_l3 lone_address_row_def ipv4_of_def port_of_def)
  show ?thesis
    using h1 h2 n d i
      l3_link_lone_address [OF h1 h2, of paired_addresses two_routers "(''R1'', ''Gi0/0'')"]
    by (simp add: ipv4_of_def port_of_def addresses_of_def two_routers_def plain_interface_def)
qed

theorem l3_link_lone_address_rejected_counterexample:
  "(a_ipv4_address lone_address_row = None) \<noteq> (z_ipv4_address lone_address_row = None)
   \<and> ipv4_network lone_address_row = None
   \<and> \<not> is_Done (load_l3_link paired_addresses lone_address_row two_routers)
   \<and> raised (load_l3_link paired_addresses lone_address_row two_routers)
       = Some (ValidationError [''L3Link''])"
  by (simp add: load_l3_link_def row_to_model_L3Link_def paired_addresses_def
      L3Link.truncate_def lone_address_row_def)

text \<open>
  C4. For a row of \<open>l3_links\<close> that gives a valid network and not both end addresses,
  and that is processed successfully: the list of usable addresses is not empty, so
  neither \<open>usable_ips[0]\<close> nor \<open>usable_ips[-1]\<close> raises; the a-side interface has got
  the first usable address and the z-side interface the last one appended to its
  addresses, with the prefix length of the network, and no other interface has got an
  address. Up to /30 the two are the address after the network address and the address
  before the broadcast address; for a /31 they are its two addresses; for a /32 both are
  its single address. The loader has no check of the number of usable addresses: in the
  example after the witness the row with the network 10.0.0.1/32, which has one usable
  address, is processed successfully (by validators that accept the address) and both
  ends get 10.0.0.1/32.
\<close>

theorem l3_link_network_addresses:
  assumes "valid_network net" and "ipv4_network link = Some net"
    and "a_ipv4_address link = None \<or> z_ipv4_address link = None"
    and "load_l3_link vs link st = Done s"
  shows "network_hosts net \<noteq> []
       \<and> addresses_of s k = addresses_of st k
            @ (if k = a_key link then [\<lparr>address = \<lparr>ip = hd (network_hosts net),
                                            if_prefixlen = prefixlen net\<rparr>,
                                 secondary = None\<rparr>] else [])
            @ (if k = z_key link then [\<lparr>address = \<lparr>ip = last (network_hosts net),
                                            if_prefixlen = prefixlen net\<rparr>,
                                 secondary = None\<rparr>] else [])
       \<and> (prefixlen net \<le> 30 \<longrightarrow>
            hd (network_hosts net) = network_address net + 1
            \<and> last (network_hosts net) = network_address net + 2 ^ (32 - prefixlen net) - 2)
       \<and> (prefixlen net = 31 \<longrightarrow>
            hd (network_hosts net) = network_address net
            \<and> last (network_hosts net) = network_address net + 1)
       \<and> (prefixlen net = 32 \<longrightarrow>
            hd (network_hosts net) = network_address net
            \<and> last (network_hosts net) = network_address net)"
  by (rule l3_statements_network_addresses [OF assms(1-3) load_l3_link_Done [OF assms(4)]])

theorem l3_link_network_addresses_witness:
  "valid_network \<lparr>network_address = 167772160, prefixlen = 30\<rparr>
   \<and> ipv4_network routed_row = Some \<lparr>network_address = 167772160, prefixlen = 30\<rparr>
   \<and> a_ipv4_address routed_row = None
   \<and> is_Done (load_l3_link accept_all routed_row two_routers)
   \<and> addresses_of (final_state (load_l3_link accept_all routed_row two_routers))
        (''R1'', ''Gi0/0'')
       = [\<lparr>address = \<lparr>ip = 167772161, if_prefixlen = 30\<rparr>, secondary = None\<rparr>]
   \<and> addresses_of (final_state (load_l3_link accept_all routed_row two_routers))
        (''R2'', ''Gi0/0'')
       = [\<lparr>address = \<lparr>ip = 167772162, if_prefixlen = 30\<rparr>, secondary = None\<rparr>]"
proof -
  let ?net = "\<lparr>network_address = 167772160, prefixlen = 30\<rparr>"
  have v: "valid_network ?net"
    by (simp add: valid_network_def)
  have n: "ipv4_network routed_row = Some ?net"
    by (simp add: routed_row_def)
  have a: "a_ipv4_address routed_row = None \<or> z_ipv4_address routed_row = None"
    by (simp add: routed_row_def)
  have d: "is_Done (load_l3_link accept_all routed_row two_routers)"
    by (simp add: eval_l3 routed_row_def)
  have h: "network_hosts ?net = [167772161, 167772162]"
    by (simp add: network_hosts_def broadcast_address_def)
  have e: "addresses_of two_routers k = []" for k
    by (simp add: addresses_of_def port_of_def two_routers_def plain_interface_def)
  show ?thesis
    using v n d
      l3_link_network_addresses [OF v n a is_Done_final [OF d], of "(''R1'', ''Gi0/0'')"]
      l3_link_network_addresses [OF v n a is_Done_final [OF d], of "(''R2'', ''Gi0/0'')"]
    by (simp add: h e a_key_def z_key_def routed_row_def)
qed

theorem l3_link_host_route_counterexample:
  "valid_network \<lparr>network_address = 167772161, prefixlen = 32\<rparr>
   \<and> network_hosts \<lparr>network_address = 167772161, prefixlen = 32\<rparr> = [167772161]
   \<and> is_Done (load_l3_link accept_all host_route_row two_routers)
   \<and> addresses_of (final_state (load_l3_link accept_all host_route_row two_routers))
        (''R1'', ''Gi0/0'')
       = [\<lparr>address = \<lparr>ip = 167772161, if_prefixlen = 32\<rparr>, secondary = None\<rparr>]
   \<and> addresses_of (final_state (load_l3_link accept_all host_route_row two_routers))
        (''R2'', ''Gi0/0'')
       = [\<lparr>address = \<lparr>ip = 167772161, if_prefixlen = 32\<rparr>, secondary = None\<rparr>]"
  by (simp add: eval_l3 host_route_row_def valid_network_def addresses_of_def port_of_def
      port_addresses_def)

text \<open>
  C5. After a row of \<open>l3_links\<close> with two different end interfaces has applied the
  template \<open>name\<close>: both interfaces have an OSPF configuration equal to the template,
  and the template is as before; changing the configuration attached to one end changes
  that configuration, and neither the configuration attached to the other end nor the
  template in the registry.
\<close>

theorem ospf_template_copies_isolated:
  assumes "load_l3_link vs link st = Done s" and "row_ospf_template link = Some name"
    and "a_key link \<noteq> z_key link" and "allocated st name"
  shows "ospf_of s (a_key link) = template_of st name
       \<and> ospf_of s (z_key link) = template_of st name
       \<and> template_of s name = template_of st name
       \<and> ospf_of (mutate_ospf (a_key link) f s) (a_key link) = map_option f (ospf_of s (a_key link))
       \<and> ospf_of (mutate_ospf (a_key link) f s) (z_key link) = ospf_of s (z_key link)
       \<and> template_of (mutate_ospf (a_key link) f s) name = template_of s name
       \<and> ospf_of (mutate_ospf (z_key link) f s) (z_key link) = map_option f (ospf_of s (z_key link))
       \<and> ospf_of (mutate_ospf (z_key link) f s) (a_key link) = ospf_of s (a_key link)
       \<and> template_of (mutate_ospf (z_key link) f s) name = template_of s name"
  by (rule l3_statements_copies_isolated [OF load_l3_link_Done [OF assms(1)] assms(2-4)])

theorem ospf_template_copies_isolated_witness:
  "row_ospf_template ospf_row = Some ''P2P''
   \<and> a_key ospf_row \<noteq> z_key ospf_row
   \<and> allocated two_routers_ospf ''P2P''
   \<and> is_Done (load_l3_link accept_all ospf_row two_routers_ospf)
   \<and> ospf_of (final_state (load_l3_link accept_all ospf_row two_routers_ospf)) (''R1'', ''Gi0/0'')
       = Some p2p_config
   \<and> ospf_of (mutate_ospf (''R1'', ''Gi0/0'') (\<lambda>c. c\<lparr>cost := Some 10\<rparr>)
        (final_state (load_l3_link accept_all ospf_row two_routers_ospf))) (''R1'', ''Gi0/0'')
       = Some (p2p_config\<lparr>cost := Some 10\<rparr>)
   \<and> ospf_of (mutate_ospf (''R1'', ''Gi0/0'') (\<lambda>c. c\<lparr>cost := Some 10\<rparr>)
        (final_state (load_l3_link accept_all ospf_row two_routers_ospf))) (''R2'', ''Gi0/0'')
       = Some p2p_config
   \<and> template_of (mutate_ospf (''R1'', ''Gi0/0'') (\<lambda>c. c\<lparr>cost := Some 10\<rparr>)
        (final_state (load_l3_link accept_all ospf_row two_routers_ospf))) ''P2P''
       = Some p2p_config"
proof -
  have h2: "row_ospf_template ospf_row = Some ''P2P''"
    by (simp add: ospf_row_def)
  have h3: "a_key ospf_row \<noteq> z_key ospf_row"
    by (simp add: ospf_row_def a_key_def z_key_def)
  have h4: "allocated two_routers_ospf ''P2P''"
    by (simp add: allocated_def eval_ospf two_routers_def)
  have d: "is_Done (load_l3_link accept_all ospf_row two_routers_ospf)"
    by (simp add: eval_l3 eval_ospf ospf_row_def)
  have t: "template_of two_routers_ospf ''P2P'' = Some p2p_config"
    by (simp add: template_of_def eval_ospf two_routers_def)
  show ?thesis
    using h2 h3 h4 d
      ospf_template_copies_isolated [OF is_Done_final [OF d] h2 h3 h4,
        of "\<lambda>c. c\<lparr>cost := Some 10\<rparr>"]
    by (simp add: t a_key_def z_key_def ospf_row_def)
qed

end
